theory Spec2Isabelle
  imports Complex_Main
begin

section \<open>GLSL values and built-in functions\<close>

text \<open>
  The shaders of \<^verbatim>\<open>bundle.js\<close> compute on GLSL \<^verbatim>\<open>float\<close>s. They are
  modelled as exact reals: rounding, overflow and NaN are outside the model (the
  specification puts them out of scope as well). A \<^verbatim>\<open>vec2\<close> is a pair, a
  \<^verbatim>\<open>vec4\<close> has the four components \<^verbatim>\<open>x y z w\<close>.
\<close>

type_synonym vec2 = "real \<times> real"

datatype vec4 = Vec4 (x4: real) (y4: real) (z4: real) (w4: real)

text \<open>A \<^verbatim>\<open>sampler2D\<close> is what \<^verbatim>\<open>texture2D\<close> returns at every coordinate.\<close>

type_synonym sampler2D = "vec2 \<Rightarrow> vec4"

definition vec2_add :: "vec2 \<Rightarrow> vec2 \<Rightarrow> vec2" where
  "vec2_add a b = (fst a + fst b, snd a + snd b)"

definition vec2_sub :: "vec2 \<Rightarrow> vec2 \<Rightarrow> vec2" where
  "vec2_sub a b = (fst a - fst b, snd a - snd b)"

definition vec2_div :: "vec2 \<Rightarrow> vec2 \<Rightarrow> vec2" where
  "vec2_div a b = (fst a / fst b, snd a / snd b)"

definition vec2_scale :: "real \<Rightarrow> vec2 \<Rightarrow> vec2" where
  "vec2_scale k a = (k * fst a, k * snd a)"

definition dot :: "vec2 \<Rightarrow> vec2 \<Rightarrow> real" where
  "dot a b = fst a * fst b + snd a * snd b"

text \<open>\<^verbatim>\<open>step(edge, x)\<close> is 0.0 if \<^verbatim>\<open>x < edge\<close> and 1.0 otherwise.\<close>

definition step_glsl :: "real \<Rightarrow> real \<Rightarrow> real" where
  "step_glsl edge x = (if x < edge then 0 else 1)"

text \<open>\<^verbatim>\<open>mix(a, b, t)\<close> is the linear blend \<^verbatim>\<open>a * (1 - t) + b * t\<close>.\<close>

definition mix :: "real \<Rightarrow> real \<Rightarrow> real \<Rightarrow> real" where
  "mix a b t = a * (1 - t) + b * t"

definition clamp :: "real \<Rightarrow> real \<Rightarrow> real \<Rightarrow> real" where
  "clamp v lo hi = min (max v lo) hi"

text \<open>
  \<^verbatim>\<open>smoothstep(edge0, edge1, x)\<close> is the Hermite blend of
  \<^verbatim>\<open>t = clamp((x - edge0) / (edge1 - edge0), 0.0, 1.0)\<close>. The shader calls it with
  \<^verbatim>\<open>edge0 > edge1\<close>; the formula is taken as it stands.
\<close>

definition smoothstep :: "real \<Rightarrow> real \<Rightarrow> real \<Rightarrow> real" where
  "smoothstep edge0 edge1 v =
     (let t = clamp ((v - edge0) / (edge1 - edge0)) 0 1 in t * t * (3 - 2 * t))"

section \<open>The simulation fragment shader\<close>

text \<open>
  The uniforms of \<^verbatim>\<open>simMaterial\<close> other than the texture, which is passed to the
  shader as a sampler of its own.
\<close>

record sim_uniforms =
  u_mouse :: vec2
  u_resolution :: vec2
  u_time :: real
  u_frame :: int

definition deltaBase :: real where
  "deltaBase = 0.72"

text \<open>
  The three tier-dependent locals of \<^verbatim>\<open>main()\<close>, lines 39 to 42:
  \<^verbatim>\<open>isMobile = step(500.0, resolution.x)\<close>, \<^verbatim>\<open>scale = mix(2.0, 8.0, isMobile)\<close> and
  \<^verbatim>\<open>delta = deltaBase * mix(0.6, 1.0, isMobile)\<close>, as functions of what they read.
\<close>

definition sim_isMobile :: "vec2 \<Rightarrow> real" where
  "sim_isMobile resolution = step_glsl 500 (fst resolution)"

definition sim_scale :: "real \<Rightarrow> real" where
  "sim_scale isMobile = mix 2 8 isMobile"

definition sim_delta :: "real \<Rightarrow> real" where
  "sim_delta isMobile = deltaBase * mix 0.6 1 isMobile"

text \<open>
  \<^verbatim>\<open>main()\<close> of \<^verbatim>\<open>simulationFragmentShader\<close>, one texel at a time: the result is
  the \<^verbatim>\<open>gl_FragColor\<close> written for the fragment with varying \<^verbatim>\<open>vUv\<close>. The
  successive assignments to \<^verbatim>\<open>pressure\<close> and \<^verbatim>\<open>pVel\<close> are numbered.
\<close>

definition simulationFragmentShader :: "sampler2D \<Rightarrow> sim_uniforms \<Rightarrow> vec2 \<Rightarrow> vec4" where
  "simulationFragmentShader textureA u vUv =
     (let uv = vUv in
      if u_frame u = 0 then Vec4 0 0 0 0
      else
        let data = textureA uv;
            pressure = x4 data;
            pVel = y4 data;
            isMobile = sim_isMobile (u_resolution u);
            scale = sim_scale isMobile;
            texelSize = (scale / fst (u_resolution u), scale / snd (u_resolution u));
            delta = sim_delta isMobile;
            offset = (fst texelSize, 0);
            left = x4 (textureA (vec2_sub uv offset));
            right = x4 (textureA (vec2_add uv offset));
            up = right;
            down = left;
            dH = right + left - 2 * pressure;
            dV = up + down - 2 * pressure;
            pVel1 = pVel + delta * 0.25 * (dH + dV);
            pressure1 = pressure + delta * pVel1;
            pVel2 = pVel1 - 0.005 * delta * pressure1;
            pVel3 = pVel2 * (1 - 0.002 * delta);
            pressure2 = pressure1 * 0.999;
            pressure3 =
              (if u_frame u < 2 then
                 let deltaUV = vec2_sub uv (0.5, 0.5);
                     distSq = dot deltaUV deltaUV
                 in if distSq < 0.25 then pressure2 + 2.5 * (1 - distSq * 2) else pressure2
               else pressure2);
            pressure4 =
              (if fst (u_mouse u) > 0 then
                 let mouseUV = vec2_div (u_mouse u) (u_resolution u);
                     diff = vec2_sub uv mouseUV;
                     distSq = dot diff diff
                 in if distSq < 0.0004 then
                      let dist = sqrt distSq;
                          softness = smoothstep 0.02 0.005 dist
                      in pressure3 + 1.2 * softness
                    else pressure3
               else pressure3)
        in Vec4 pressure4 pVel3 ((right - left) * 0.5) ((up - down) * 0.5))"

section \<open>The update rule as the specification words it\<close>

text \<open>
  Section 4.1 of the specification, written down from its words and not from the shader:
  the tier, the neighbour offset \<^verbatim>\<open>scale / fieldResolution\<close>, steps 1 to 4 of the
  update rule and the start-up impulse. The shader is compared with these below.
\<close>

datatype tier = LowTier | HighTier

definition spec_tier :: "vec2 \<Rightarrow> tier" where
  "spec_tier fieldResolution = (if fst fieldResolution < 500 then LowTier else HighTier)"

fun spec_scale :: "tier \<Rightarrow> real" where
  "spec_scale LowTier = 2"
| "spec_scale HighTier = 8"

fun spec_tierFactor :: "tier \<Rightarrow> real" where
  "spec_tierFactor LowTier = 0.6"
| "spec_tierFactor HighTier = 1.0"

definition spec_delta :: "tier \<Rightarrow> real" where
  "spec_delta t = 0.72 * spec_tierFactor t"

definition spec_update :: "real \<Rightarrow> real \<Rightarrow> real \<Rightarrow> real \<Rightarrow> real \<Rightarrow> real \<times> real" where
  "spec_update delta height velocity left right =
     (let up_approx = right;
          down_approx = left;
          laplacianApprox = (right + left - 2 * height) + (up_approx + down_approx - 2 * height);
          velocity1 = velocity + delta * 0.25 * laplacianApprox;
          height1 = height + delta * velocity1;
          velocity2 = velocity1 - 0.005 * delta * height1;
          velocity3 = velocity2 * (1 - 0.002 * delta);
          height2 = height1 * 0.999
      in (height2, velocity3))"

definition spec_step :: "sampler2D \<Rightarrow> vec2 \<Rightarrow> vec2 \<Rightarrow> real \<times> real" where
  "spec_step field fieldResolution uv =
     (let t = spec_tier fieldResolution;
          texelSize = spec_scale t / fst fieldResolution;
          left = x4 (field (fst uv - texelSize, snd uv));
          right = x4 (field (fst uv + texelSize, snd uv))
      in spec_update (spec_delta t) (x4 (field uv)) (y4 (field uv)) left right)"

definition spec_impulse :: "int \<Rightarrow> vec2 \<Rightarrow> real" where
  "spec_impulse frameIndex uv =
     (let distSq = (fst uv - 0.5)\<^sup>2 + (snd uv - 0.5)\<^sup>2
      in if frameIndex < 2 \<and> distSq < 0.25 then 2.5 * (1 - 2 * distSq) else 0)"

text \<open>A texture that is zero everywhere.\<close>

definition no_texture :: sampler2D where
  "no_texture uv = Vec4 0 0 0 0"

text \<open>
  The distance in normalised uv space between a texel and the pointer, as the shader
  measures it (lines 74 to 78), and the height a step owes to the pointer: what the shader
  writes, less what it writes for the same input with the pointer at the off-field
  position \<^verbatim>\<open>(-10, -10)\<close>.
\<close>

definition pointerDistance :: "sim_uniforms \<Rightarrow> vec2 \<Rightarrow> real" where
  "pointerDistance u uv =
     (let mouseUV = vec2_div (u_mouse u) (u_resolution u);
          diff = vec2_sub uv mouseUV
      in sqrt (dot diff diff))"

definition pointerContribution :: "sampler2D \<Rightarrow> sim_uniforms \<Rightarrow> vec2 \<Rightarrow> real" where
  "pointerContribution textureA u uv =
     x4 (simulationFragmentShader textureA u uv)
       - x4 (simulationFragmentShader textureA (u\<lparr>u_mouse := (-10, -10)\<rparr>) uv)"

section \<open>The render fragment shader\<close>

type_synonym vec3 = "real \<times> real \<times> real"

definition vec3_scale :: "real \<Rightarrow> vec3 \<Rightarrow> vec3" where
  "vec3_scale k v = (case v of (a, b, c) \<Rightarrow> (k * a, k * b, k * c))"

definition vec3_add :: "vec3 \<Rightarrow> vec3 \<Rightarrow> vec3" where
  "vec3_add v v' = (case v of (a, b, c) \<Rightarrow> case v' of (a', b', c') \<Rightarrow> (a + a', b + b', c + c'))"

text \<open>\<^verbatim>\<open>normalize(v)\<close> is \<^verbatim>\<open>v / length(v)\<close>.\<close>

definition normalize :: "vec3 \<Rightarrow> vec3" where
  "normalize v = (case v of (a, b, c) \<Rightarrow>
     let len = sqrt (a * a + b * b + c * c) in (a / len, b / len, c / len))"

definition customGreen :: vec3 where
  "customGreen = (0.7, 1.0, 0.3)"

definition customBlue :: vec3 where
  "customBlue = (1.0, 0.5, 0.6)"

text \<open>
  The locals \<^verbatim>\<open>normal\<close>, \<^verbatim>\<open>timeOffset\<close>, \<^verbatim>\<open>offset\<close>, \<^verbatim>\<open>offsetG\<close> and
  \<^verbatim>\<open>offsetB\<close> of the render shader's \<^verbatim>\<open>main()\<close>, lines 110 to 117, each as a
  function of what it reads.
\<close>

definition render_normal :: "vec4 \<Rightarrow> vec3" where
  "render_normal data = normalize (- z4 data, 0.2, - w4 data)"

definition render_timeOffset :: "real \<Rightarrow> vec2" where
  "render_timeOffset time = (let t = time * 3 in vec2_scale 0.00014 (sin t, sin (t * 0.43)))"

definition render_offset :: "vec3 \<Rightarrow> vec2" where
  "render_offset normal = (case normal of (nx, ny, nz) \<Rightarrow> (nx, nz))"

definition render_offsetG :: "vec4 \<Rightarrow> real \<Rightarrow> vec2" where
  "render_offsetG data time =
     vec2_sub (vec2_scale 0.024 (render_offset (render_normal data))) (render_timeOffset time)"

definition render_offsetB :: "vec4 \<Rightarrow> real \<Rightarrow> vec2" where
  "render_offsetB data time =
     vec2_add (vec2_scale 0.022 (render_offset (render_normal data))) (render_timeOffset time)"

definition renderFragmentShader :: "sampler2D \<Rightarrow> real \<Rightarrow> vec2 \<Rightarrow> vec4" where
  "renderFragmentShader textureA time vUv =
     (let data = textureA vUv;
          offsetG = render_offsetG data time;
          offsetB = render_offsetB data time;
          g = y4 (textureA (vec2_add vUv offsetG));
          b = z4 (textureA (vec2_add vUv offsetB));
          rippleColor = vec3_add (vec3_scale g customGreen) (vec3_scale b customBlue);
          alpha = max g b * 0.9
      in case rippleColor of (cr, cg, cb) \<Rightarrow> Vec4 cr cg cb alpha)"

section \<open>Render targets and texture sampling\<close>

text \<open>
  A \<^verbatim>\<open>THREE.WebGLRenderTarget\<close> with its texture: the dimensions and the texel
  at every column and row. Only the texels inside the dimensions are ever read.
\<close>

record field =
  fwidth :: int
  fheight :: int
  texels :: "int \<Rightarrow> int \<Rightarrow> vec4"

definition vec4_mix :: "vec4 \<Rightarrow> vec4 \<Rightarrow> real \<Rightarrow> vec4" where
  "vec4_mix p q t =
     Vec4 (mix (x4 p) (x4 q) t) (mix (y4 p) (y4 q) t) (mix (z4 p) (z4 q) t) (mix (w4 p) (w4 q) t)"

text \<open>
  A texel fetch under \<^verbatim>\<open>ClampToEdgeWrapping\<close>, the wrap mode a render target has
  when \<^verbatim>\<open>options\<close> names none: an index outside the field reads the nearest edge texel.
\<close>

definition texelFetch :: "field \<Rightarrow> int \<Rightarrow> int \<Rightarrow> vec4" where
  "texelFetch f i j = texels f (max 0 (min (fwidth f - 1) i)) (max 0 (min (fheight f - 1) j))"

text \<open>
  \<^verbatim>\<open>texture2D\<close> on a render target created with \<^verbatim>\<open>options\<close>
  (\<^verbatim>\<open>minFilter\<close> and \<^verbatim>\<open>magFilter\<close> are \<^verbatim>\<open>THREE.LinearFilter\<close>): texel centres
  sit at \<^verbatim>\<open>(i + 0.5) / width\<close>, and the four texels around the coordinate are blended
  by the fractional position between their centres.
\<close>

definition texture2D :: "field \<Rightarrow> sampler2D" where
  "texture2D f uv =
     (let x = fst uv * real_of_int (fwidth f) - 0.5;
          y = snd uv * real_of_int (fheight f) - 0.5;
          i0 = \<lfloor>x\<rfloor>;
          j0 = \<lfloor>y\<rfloor>;
          a = frac x;
          b = frac y
      in vec4_mix (vec4_mix (texelFetch f i0 j0) (texelFetch f (i0 + 1) j0) a)
                  (vec4_mix (texelFetch f i0 (j0 + 1)) (texelFetch f (i0 + 1) (j0 + 1)) a) b)"

text \<open>
  The varying \<^verbatim>\<open>vUv\<close> of the fragment at column \<^verbatim>\<open>i\<close>, row \<^verbatim>\<open>j\<close> of a target:
  the full-screen quad (\<^verbatim>\<open>PlaneGeometry(2, 2)\<close> under the orthographic camera) carries
  uv from 0 to 1 across the target, and a fragment is shaded at its centre.
\<close>

definition fragUv :: "field \<Rightarrow> int \<Rightarrow> int \<Rightarrow> vec2" where
  "fragUv target i j =
     ((real_of_int i + 0.5) / real_of_int (fwidth target),
      (real_of_int j + 0.5) / real_of_int (fheight target))"

text \<open>
  \<^verbatim>\<open>renderer.setRenderTarget(rtB); renderer.render(simScene, camera)\<close>: every texel of
  the target is written by the simulation shader reading the source texture.
\<close>

definition renderSimScene :: "sim_uniforms \<Rightarrow> field \<Rightarrow> field \<Rightarrow> field" where
  "renderSimScene u src target =
     target\<lparr>texels := \<lambda>i j. simulationFragmentShader (texture2D src) u (fragUv target i j)\<rparr>"

text \<open>
  \<^verbatim>\<open>WebGLRenderTarget.setSize\<close>: a target whose size changes is disposed of and
  allocated again at the new size, with cleared texels.
\<close>

definition setSize :: "field \<Rightarrow> int \<Rightarrow> int \<Rightarrow> field" where
  "setSize f w h =
     (if fwidth f \<noteq> w \<or> fheight f \<noteq> h
      then \<lparr>fwidth = w, fheight = h, texels = \<lambda>i j. Vec4 0 0 0 0\<rparr>
      else f)"

section \<open>The page script: set-up, input events, resize and the animation loop\<close>

text \<open>
  The variables of the \<^verbatim>\<open>DOMContentLoaded\<close> handler that outlive it. \<^verbatim>\<open>isMobile\<close>,
  \<^verbatim>\<open>dpr\<close>, \<^verbatim>\<open>simResFactor\<close>, \<^verbatim>\<open>simWidth\<close> and \<^verbatim>\<open>simHeight\<close> are
  \<^verbatim>\<open>const\<close> in the source; JavaScript numbers are modelled as reals, and as integers
  where they come out of \<^verbatim>\<open>Math.floor\<close>.
\<close>

record session =
  isMobile :: bool
  dpr :: real
  width :: int
  height :: int
  simResFactor :: int
  simWidth :: int
  simHeight :: int
  rtA :: field
  rtB :: field
  simUniforms :: sim_uniforms
  renderTime :: real
  frame :: int
  lastTouchTime :: real

record window =
  innerWidth :: real
  innerHeight :: real
  devicePixelRatio :: real

record DOMRect =
  rect_left :: real
  rect_top :: real
  rect_width :: real
  rect_height :: real

text \<open>The state the handler has built when it reaches \<^verbatim>\<open>animate()\<close>, lines 152 to 209.\<close>

definition initSession :: "window \<Rightarrow> session" where
  "initSession win =
     (let isMobile = innerWidth win < 768;
          dpr = (if isMobile then 1.25 else min (devicePixelRatio win) 2);
          width = \<lfloor>innerWidth win * dpr\<rfloor>;
          height = \<lfloor>innerHeight win * dpr\<rfloor>;
          simResFactor = (if isMobile then 3 else 2);
          simWidth = \<lfloor>real_of_int width / real_of_int simResFactor\<rfloor>;
          simHeight = \<lfloor>real_of_int height / real_of_int simResFactor\<rfloor>;
          blank = \<lparr>fwidth = simWidth, fheight = simHeight, texels = \<lambda>i j. Vec4 0 0 0 0\<rparr>
      in \<lparr>isMobile = isMobile, dpr = dpr, width = width, height = height,
          simResFactor = simResFactor, simWidth = simWidth, simHeight = simHeight,
          rtA = blank, rtB = blank,
          simUniforms = \<lparr>u_mouse = (-10, -10),
                         u_resolution = (real_of_int simWidth, real_of_int simHeight),
                         u_time = 0, u_frame = 0\<rparr>,
          renderTime = 0, frame = 0, lastTouchTime = 0\<rparr>)"

text \<open>
  \<^verbatim>\<open>updateMousePosition\<close>, lines 212 to 222. The rectangle is what
  \<^verbatim>\<open>getBoundingClientRect\<close> returns at the time of the event. \<^verbatim>\<open>simWidth\<close> and
  \<^verbatim>\<open>simHeight\<close> are the constants of the enclosing handler.
\<close>

definition updateMousePosition :: "real \<Rightarrow> real \<Rightarrow> DOMRect \<Rightarrow> session \<Rightarrow> session" where
  "updateMousePosition clientX clientY rect s =
     (let x = (clientX - rect_left rect) / rect_width rect;
          y = 1 - (clientY - rect_top rect) / rect_height rect;
          x1 = x * real_of_int (simWidth s);
          y1 = y * real_of_int (simHeight s)
      in s\<lparr>simUniforms := (simUniforms s)\<lparr>u_mouse := (x1, y1)\<rparr>\<rparr>)"

text \<open>
  \<^verbatim>\<open>handleTouchMove\<close>, lines 225 to 233; \<^verbatim>\<open>now\<close> is the reading of
  \<^verbatim>\<open>performance.now()\<close>, the touches are the client coordinates of \<^verbatim>\<open>e.touches\<close>.
\<close>

definition handleTouchMove :: "real \<Rightarrow> (real \<times> real) list \<Rightarrow> DOMRect \<Rightarrow> session \<Rightarrow> session" where
  "handleTouchMove now touches rect s =
     (if now - lastTouchTime s < 16 then s
      else
        let s1 = s\<lparr>lastTouchTime := now\<rparr>
        in case touches of
             [] \<Rightarrow> s1
           | (clientX, clientY) # rest \<Rightarrow> updateMousePosition clientX clientY rect s1)"

definition pointerOff :: "session \<Rightarrow> session" where
  "pointerOff s = s\<lparr>simUniforms := (simUniforms s)\<lparr>u_mouse := (-10, -10)\<rparr>\<rparr>"

text \<open>
  The resize listener, lines 256 to 269. Its \<^verbatim>\<open>simWidth\<close> and \<^verbatim>\<open>simHeight\<close> are
  constants of its own block: the ones of the enclosing handler, which
  \<^verbatim>\<open>updateMousePosition\<close> reads, keep their values.
\<close>

definition resize :: "real \<Rightarrow> real \<Rightarrow> session \<Rightarrow> session" where
  "resize newInnerWidth newInnerHeight s =
     (let width1 = \<lfloor>newInnerWidth * dpr s\<rfloor>;
          height1 = \<lfloor>newInnerHeight * dpr s\<rfloor>;
          simWidth1 = \<lfloor>real_of_int width1 / real_of_int (simResFactor s)\<rfloor>;
          simHeight1 = \<lfloor>real_of_int height1 / real_of_int (simResFactor s)\<rfloor>
      in s\<lparr>width := width1, height := height1,
           rtA := setSize (rtA s) simWidth1 simHeight1,
           rtB := setSize (rtB s) simWidth1 simHeight1,
           simUniforms := (simUniforms s)\<lparr>u_resolution :=
             (real_of_int simWidth1, real_of_int simHeight1)\<rparr>,
           frame := 0\<rparr>)"

text \<open>
  One turn of \<^verbatim>\<open>animate\<close>, lines 272 to 289, with the two readings of
  \<^verbatim>\<open>performance.now()\<close>. The pass to the screen writes no state but the render
  material's \<^verbatim>\<open>time\<close>; it reads the texture of the target just written, which after
  the swap is \<^verbatim>\<open>rtA\<close>.
\<close>

definition animate :: "real \<Rightarrow> real \<Rightarrow> session \<Rightarrow> session" where
  "animate now1 now2 s =
     (let u = (simUniforms s)\<lparr>u_frame := frame s, u_time := now1 / 1000\<rparr>;
          written = renderSimScene u (rtA s) (rtB s)
      in s\<lparr>simUniforms := u, frame := frame s + 1, renderTime := now2 / 1000,
           rtA := written, rtB := rtA s\<rparr>)"

text \<open>
  The handler returns at once when the canvas is missing; otherwise it ends with the first
  call of \<^verbatim>\<open>animate\<close>.
\<close>

definition startup :: "bool \<Rightarrow> window \<Rightarrow> real \<Rightarrow> real \<Rightarrow> session option" where
  "startup canvasFound win now1 now2 =
     (if \<not> canvasFound then None else Some (animate now1 now2 (initSession win)))"

datatype event =
    MouseMove real real DOMRect
  | MouseLeave
  | TouchStart "(real \<times> real) list" DOMRect
  | TouchMove real "(real \<times> real) list" DOMRect
  | TouchEnd
  | Resize real real
  | AnimationFrame real real

fun handle :: "session \<Rightarrow> event \<Rightarrow> session" where
  "handle s (MouseMove clientX clientY rect) = updateMousePosition clientX clientY rect s"
| "handle s MouseLeave = pointerOff s"
| "handle s (TouchStart touches rect) =
     (case touches of
        [] \<Rightarrow> s
      | (clientX, clientY) # rest \<Rightarrow> updateMousePosition clientX clientY rect s)"
| "handle s (TouchMove now touches rect) = handleTouchMove now touches rect s"
| "handle s TouchEnd = pointerOff s"
| "handle s (Resize newInnerWidth newInnerHeight) = resize newInnerWidth newInnerHeight s"
| "handle s (AnimationFrame now1 now2) = animate now1 now2 s"

text \<open>The session after a sequence of events, oldest first.\<close>

definition run :: "session \<Rightarrow> event list \<Rightarrow> session" where
  "run s es = foldl handle s es"

section \<open>Notions the claims are stated with\<close>

text \<open>
  The squared distance of a texel from the field centre in normalised uv space, as the
  shader measures it (lines 65 and 66).
\<close>

definition centerDistSq :: "vec2 \<Rightarrow> real" where
  "centerDistSq uv = (let deltaUV = vec2_sub uv (0.5, 0.5) in dot deltaUV deltaUV)"

fun isResize :: "event \<Rightarrow> bool" where
  "isResize (Resize w h) = True"
| "isResize e = False"

text \<open>A cleared render target of a given size.\<close>

definition blankField :: "int \<Rightarrow> int \<Rightarrow> field" where
  "blankField w h = \<lparr>fwidth = w, fheight = h, texels = \<lambda>i j. Vec4 0 0 0 0\<rparr>"

text \<open>
  Two invariants of a session: the two targets have the same size, which is the
  \<^verbatim>\<open>resolution\<close> uniform; and the frame with index 1 reads a cleared texture.
\<close>

definition buffersAgree :: "session \<Rightarrow> bool" where
  "buffersAgree s \<longleftrightarrow>
     fwidth (rtA s) = fwidth (rtB s) \<and> fheight (rtA s) = fheight (rtB s) \<and>
     u_resolution (simUniforms s) = (real_of_int (fwidth (rtA s)), real_of_int (fheight (rtA s))) \<and>
     0 < simResFactor s"

definition clearedAtFrame1 :: "session \<Rightarrow> bool" where
  "clearedAtFrame1 s \<longleftrightarrow> (frame s = 1 \<longrightarrow> (\<forall>i j. texels (rtA s) i j = Vec4 0 0 0 0))"

text \<open>Both targets still have the simulation size computed at start-up.\<close>

definition sizedAsAtStartup :: "session \<Rightarrow> bool" where
  "sizedAsAtStartup s \<longleftrightarrow>
     fwidth (rtA s) = simWidth s \<and> fheight (rtA s) = simHeight s \<and>
     fwidth (rtB s) = simWidth s \<and> fheight (rtB s) = simHeight s"

text \<open>Three viewports: a desktop window, a wider one, and a phone.\<close>

definition desktopWindow :: window where
  "desktopWindow = \<lparr>innerWidth = 1000, innerHeight = 800, devicePixelRatio = 1\<rparr>"

definition wideWindow :: window where
  "wideWindow = \<lparr>innerWidth = 1200, innerHeight = 800, devicePixelRatio = 1\<rparr>"

definition phoneWindow :: window where
  "phoneWindow = \<lparr>innerWidth = 240, innerHeight = 240, devicePixelRatio = 3\<rparr>"

text \<open>
  The phone session one frame after start-up, with the pointer moved over the texel in
  column 80 of row 50.
\<close>

definition pointedPhone :: session where
  "pointedPhone = run (animate 0 0 (initSession phoneWindow))
     [MouseMove 80.5 49.5 \<lparr>rect_left = 0, rect_top = 0, rect_width = 100, rect_height = 100\<rparr>]"

section \<open>Notions for the end-to-end scenario\<close>

text \<open>
  A number of animation frames in a row, with no other event between them (the simulation
  shader does not read the time), and the largest absolute height over a field.
\<close>

definition frames :: "nat \<Rightarrow> event list" where
  "frames n = replicate n (AnimationFrame 0 0)"

definition maxAbsHeight :: "field \<Rightarrow> real" where
  "maxAbsHeight f =
     Max ((\<lambda>(i, j). \<bar>x4 (texels f i j)\<bar>) ` ({0..<fwidth f} \<times> {0..<fheight f}))"

text \<open>A session on a 100 by 100 field whose pointer is off-field.\<close>

definition quiet100 :: "session \<Rightarrow> bool" where
  "quiet100 s \<longleftrightarrow>
     fwidth (rtA s) = 100 \<and> fheight (rtA s) = 100 \<and> fwidth (rtB s) = 100 \<and> fheight (rtB s) = 100 \<and>
     u_resolution (simUniforms s) = (100, 100) \<and> fst (u_mouse (simUniforms s)) \<le> 0"

text \<open>
  On a field 100 texels wide the step reads the neighbours two columns away, clamped at
  the edges. The weights below are chosen so that the weighted sum of a row's neighbour
  samples is the weighted sum of the row itself; the weighted height and velocity of row
  50 then evolve by the update rule without its Laplacian, a damped oscillator
  \<open>osc\<close> on a pair of numbers.
\<close>

definition rowWeight :: "int \<Rightarrow> real" where
  "rowWeight i = (if even i then real_of_int (100 - i) / 2 else real_of_int (i + 1) / 2)"

definition weightedRow :: "(int \<Rightarrow> real) \<Rightarrow> real" where
  "weightedRow a = (\<Sum>i\<leftarrow>[0..99]. rowWeight i * a i)"

definition weightedHeight :: "field \<Rightarrow> real" where
  "weightedHeight f = weightedRow (\<lambda>i. x4 (texels f i 50))"

definition weightedVelocity :: "field \<Rightarrow> real" where
  "weightedVelocity f = weightedRow (\<lambda>i. y4 (texels f i 50))"

definition osc :: "real \<times> real \<Rightarrow> real \<times> real" where
  "osc p = spec_update 0.432 (fst p) (snd p) (fst p) (fst p)"

text \<open>
  The entries of the matrix of the \<open>n\<close>-th power of \<open>osc\<close>, and enclosures of
  them between integers counted in billionths: \<open>mulOK X Y Z\<close> checks, in
  integer arithmetic, that the interval matrix \<open>Z\<close> contains every product of a
  matrix in \<open>X\<close> with a matrix in \<open>Y\<close>.
\<close>

definition m11 :: "nat \<Rightarrow> real" where "m11 n = fst ((osc ^^ n) (1, 0))"

definition m21 :: "nat \<Rightarrow> real" where "m21 n = snd ((osc ^^ n) (1, 0))"

definition m12 :: "nat \<Rightarrow> real" where "m12 n = fst ((osc ^^ n) (0, 1))"

definition m22 :: "nat \<Rightarrow> real" where "m22 n = snd ((osc ^^ n) (0, 1))"

type_synonym ival = "int \<times> int"

definition inRange :: "ival \<Rightarrow> real \<Rightarrow> bool" where
  "inRange i x \<longleftrightarrow> real_of_int (fst i) \<le> x * 1000000000 \<and> x * 1000000000 \<le> real_of_int (snd i)"

definition mulLo :: "ival \<Rightarrow> ival \<Rightarrow> int" where
  "mulLo x y = min (min (fst x * fst y) (fst x * snd y)) (min (snd x * fst y) (snd x * snd y))"

definition mulHi :: "ival \<Rightarrow> ival \<Rightarrow> int" where
  "mulHi x y = max (max (fst x * fst y) (fst x * snd y)) (max (snd x * fst y) (snd x * snd y))"

definition entryOK :: "ival \<Rightarrow> ival \<Rightarrow> ival \<Rightarrow> ival \<Rightarrow> ival \<Rightarrow> bool" where
  "entryOK p q r s z \<longleftrightarrow>
     fst z * 1000000000 \<le> mulLo p q + mulLo r s \<and> mulHi p q + mulHi r s \<le> snd z * 1000000000"

type_synonym imat = "ival \<times> ival \<times> ival \<times> ival"

definition encloses :: "nat \<Rightarrow> imat \<Rightarrow> bool" where
  "encloses n X \<longleftrightarrow>
     inRange (fst X) (m11 n) \<and> inRange (fst (snd X)) (m12 n) \<and>
     inRange (fst (snd (snd X))) (m21 n) \<and> inRange (snd (snd (snd X))) (m22 n)"

fun mulOK :: "imat \<Rightarrow> imat \<Rightarrow> imat \<Rightarrow> bool" where
  "mulOK (x11, x12, x21, x22) (y11, y12, y21, y22) (z11, z12, z21, z22) \<longleftrightarrow>
     entryOK x11 y11 x12 y21 z11 \<and> entryOK x11 y12 x12 y22 z12 \<and>
     entryOK x21 y11 x22 y21 z21 \<and> entryOK x21 y12 x22 y22 z22"

section \<open>Clearing on frame 0\<close>

text \<open>
  Claim C1. When the simulation step runs with frame index 0, the texel written is
  exactly (0, 0, 0, 0): height, velocity and both derivative channels are zero, whatever
  the input texture, the other uniforms and the texel are.
\<close>

theorem frame0_output_zero:
  "simulationFragmentShader textureA (u\<lparr>u_frame := 0\<rparr>) vUv = Vec4 0 0 0 0"
  by (simp add: simulationFragmentShader_def)

section \<open>The finite-difference update\<close>

text \<open>The shader's tier constants are the specification's.\<close>

lemma shader_scale_eq:
  "sim_scale (sim_isMobile r) = spec_scale (spec_tier r)"
  by (simp add: sim_scale_def sim_isMobile_def mix_def step_glsl_def spec_tier_def)

lemma shader_delta_eq:
  "sim_delta (sim_isMobile r) = spec_delta (spec_tier r)"
  by (simp add: sim_delta_def sim_isMobile_def mix_def step_glsl_def spec_tier_def spec_delta_def deltaBase_def)

text \<open>What the shader writes for a frame index from 1 on and an off-field pointer.\<close>

lemma shader_update:
  assumes "1 \<le> u_frame u" and "fst (u_mouse u) \<le> 0"
  shows "x4 (simulationFragmentShader textureA u uv) =
           fst (spec_step textureA (u_resolution u) uv) + spec_impulse (u_frame u) uv
         \<and> y4 (simulationFragmentShader textureA u uv) =
           snd (spec_step textureA (u_resolution u) uv)"
proof -
  from assms have nz: "u_frame u \<noteq> 0" and off: "\<not> 0 < fst (u_mouse u)"
    by simp_all
  show ?thesis
    unfolding simulationFragmentShader_def spec_step_def spec_update_def Let_def
      shader_scale_eq shader_delta_eq
    using nz off
    by (simp add: spec_impulse_def vec2_sub_def vec2_add_def dot_def power2_eq_square)
qed

text \<open>
  Claim C2, as amended. For every texel, every frame index from 1 on and an off-field
  pointer (x not above 0), the velocity the shader writes is the velocity of the
  specified update (Laplacian with the vertical neighbours taken from the horizontal
  ones, then velocity, height and the three damping steps, in this order, with the
  tier's scale and delta), and the height it writes is the height of the specified update
  plus the start-up impulse: \<^verbatim>\<open>2.5 * (1 - 2 * distSq)\<close> for a texel within squared
  distance 0.25 of the centre while the frame index is below 2, and nothing from frame 2
  on.
\<close>

theorem finite_difference_update:
  assumes "1 \<le> u_frame u" and "fst (u_mouse u) \<le> 0"
  shows "x4 (simulationFragmentShader textureA u uv) =
           fst (spec_step textureA (u_resolution u) uv) + spec_impulse (u_frame u) uv
         \<and> y4 (simulationFragmentShader textureA u uv) =
           snd (spec_step textureA (u_resolution u) uv)"
  using assms by (rule shader_update)

theorem finite_difference_update_witness:
  "x4 (simulationFragmentShader no_texture \<lparr>u_mouse = (-10, -10), u_resolution = (100, 100), u_time = 0, u_frame = 2\<rparr> (0.5, 0.5)) = 0
   \<and> y4 (simulationFragmentShader no_texture \<lparr>u_mouse = (-10, -10), u_resolution = (100, 100), u_time = 0, u_frame = 2\<rparr> (0.5, 0.5)) = 0"
  using finite_difference_update [of "\<lparr>u_mouse = (-10, -10), u_resolution = (100, 100), u_time = 0, u_frame = 2\<rparr>" no_texture "(0.5, 0.5)"]
  by (simp add: spec_step_def spec_update_def spec_impulse_def no_texture_def)

text \<open>
  The claim as it was stated fails at frame index 1: on a texture that is zero everywhere
  the specified update leaves height 0 at the centre, and the shader writes 2.5.
\<close>

theorem finite_difference_update_counterexample:
  "x4 (simulationFragmentShader no_texture
         \<lparr>u_mouse = (-10, -10), u_resolution = (100, 100), u_time = 0, u_frame = 1\<rparr> (0.5, 0.5))
     \<noteq> fst (spec_step no_texture (100, 100) (0.5, 0.5))"
  by (simp add: simulationFragmentShader_def spec_step_def spec_update_def no_texture_def Let_def
      vec2_sub_def vec2_add_def dot_def)

section \<open>Pointer forcing\<close>

lemma sqrt_radius: "sqrt 0.0004 = 0.02"
  by (rule real_sqrt_unique) (simp_all add: power2_eq_square)

lemma radius_iff: "(0.02 \<le> sqrt d) = (\<not> d < 0.0004)"
proof -
  have "sqrt 0.0004 \<le> sqrt d \<longleftrightarrow> 0.0004 \<le> d"
    by (rule real_sqrt_le_iff)
  then show ?thesis
    by (simp only: sqrt_radius not_less)
qed

text \<open>
  Claim C6, as amended. In a step with an on-field pointer (x above 0) and a frame index
  other than 0, a texel at distance 0.02 or more from the pointer in normalised uv space
  owes no height to the pointer, and a texel within that radius owes it
  \<^verbatim>\<open>1.2 * smoothstep(0.02, 0.005, distance)\<close>, in every such step, since the step
  keeps no memory of the pointer. In a step with frame index 0 no texel owes the pointer
  anything.
\<close>

theorem pointer_forcing_local:
  assumes "0 < fst (u_mouse u)"
  shows "pointerContribution textureA u uv =
           (if u_frame u = 0 \<or> 0.02 \<le> pointerDistance u uv then 0
            else 1.2 * smoothstep 0.02 0.005 (pointerDistance u uv))"
proof (cases "u_frame u = 0")
  case True
  then show ?thesis
    by (simp add: pointerContribution_def simulationFragmentShader_def)
next
  case False
  have r: "0.02 \<le> pointerDistance u uv \<longleftrightarrow>
      \<not> dot (vec2_sub uv (vec2_div (u_mouse u) (u_resolution u)))
          (vec2_sub uv (vec2_div (u_mouse u) (u_resolution u))) < 0.0004"
    unfolding pointerDistance_def Let_def by (rule radius_iff)
  show ?thesis
    unfolding r
    using False assms
    by (simp add: pointerContribution_def simulationFragmentShader_def Let_def pointerDistance_def)
qed

theorem pointer_forcing_local_witness:
  "pointerContribution no_texture \<lparr>u_mouse = (50, 50), u_resolution = (100, 100), u_time = 0, u_frame = 5\<rparr> (0.5, 0.5) = 1.2"
  using pointer_forcing_local [of "\<lparr>u_mouse = (50, 50), u_resolution = (100, 100), u_time = 0, u_frame = 5\<rparr>" no_texture "(0.5, 0.5)"]
  by (simp add: pointerDistance_def vec2_div_def vec2_sub_def dot_def smoothstep_def clamp_def)

text \<open>
  The claim as it was stated fails at frame index 0: the texel under the pointer is
  cleared like every other, where the claim adds 1.2 to its height.
\<close>

theorem pointer_forcing_local_counterexample:
  "0 < fst (u_mouse \<lparr>u_mouse = (50, 50), u_resolution = (100, 100), u_time = 0, u_frame = 0\<rparr>)
   \<and> pointerDistance \<lparr>u_mouse = (50, 50), u_resolution = (100, 100), u_time = 0, u_frame = 0\<rparr> (0.5, 0.5) < 0.02
   \<and> pointerContribution no_texture \<lparr>u_mouse = (50, 50), u_resolution = (100, 100), u_time = 0, u_frame = 0\<rparr> (0.5, 0.5)
       \<noteq> 1.2 * smoothstep 0.02 0.005
             (pointerDistance \<lparr>u_mouse = (50, 50), u_resolution = (100, 100), u_time = 0, u_frame = 0\<rparr> (0.5, 0.5))"
  by (simp add: pointerContribution_def simulationFragmentShader_def pointerDistance_def
      vec2_div_def vec2_sub_def dot_def smoothstep_def clamp_def)

section \<open>Sampling a texture\<close>

lemma vec4_mix_same_zw:
  "z4 p = w4 p \<Longrightarrow> z4 q = w4 q \<Longrightarrow> z4 (vec4_mix p q t) = w4 (vec4_mix p q t)"
  by (simp add: vec4_mix_def)

lemma texture2D_same_zw:
  assumes "\<And>i j. z4 (texels f i j) = w4 (texels f i j)"
  shows "z4 (texture2D f uv) = w4 (texture2D f uv)"
  unfolding texture2D_def Let_def texelFetch_def
  by (intro vec4_mix_same_zw assms)

lemma vec4_mix_zero: "vec4_mix (Vec4 0 0 0 0) (Vec4 0 0 0 0) t = Vec4 0 0 0 0"
  by (simp add: vec4_mix_def mix_def)

lemma texture2D_zero:
  assumes "\<And>i j. texels f i j = Vec4 0 0 0 0"
  shows "texture2D f uv = Vec4 0 0 0 0"
  unfolding texture2D_def Let_def texelFetch_def
  by (simp add: assms vec4_mix_zero)

section \<open>The derivative channels and the presentation pass\<close>

lemma shader_zw:
  "z4 (simulationFragmentShader textureA u uv) = w4 (simulationFragmentShader textureA u uv)"
  by (simp add: simulationFragmentShader_def Let_def)

lemma normalize_xz:
  "fst (normalize (a, b, a)) = snd (snd (normalize (a, b, a)))"
  by (simp add: normalize_def Let_def)

text \<open>
  Claim C10, as amended. For every texel and every input, when the frame index is 1 or
  more the two derivative channels the simulation step writes both equal
  \<^verbatim>\<open>(right - left) * 0.5\<close>, the vertical neighbours being the horizontal ones. The
  presentation pass, sampling the texture just written at any coordinate, so gets a
  pseudo-normal with equal x and z components, and the part of each chromatic offset
  that comes from the normal lies on the diagonal: \<^verbatim>\<open>offsetG + timeOffset\<close> is
  \<^verbatim>\<open>0.024 * (n, n)\<close> and \<^verbatim>\<open>offsetB - timeOffset\<close> is \<^verbatim>\<open>0.022 * (n, n)\<close>. The
  offsets themselves carry the time-dependent term
  \<^verbatim>\<open>0.00014 * (sin(3 time), sin(1.29 time))\<close>, whose components differ.
\<close>

theorem derivative_channels_equal:
  assumes "1 \<le> u_frame u"
  shows "let written = renderSimScene u src target;
             out = texels written i j;
             uv = fragUv target i j;
             offset = (sim_scale (sim_isMobile (u_resolution u)) / fst (u_resolution u), 0);
             right = x4 (texture2D src (vec2_add uv offset));
             left = x4 (texture2D src (vec2_sub uv offset));
             data = texture2D written vUv;
             normal = render_normal data
         in z4 out = (right - left) * 0.5 \<and> w4 out = (right - left) * 0.5
            \<and> fst normal = snd (snd normal)
            \<and> vec2_add (render_offsetG data time) (render_timeOffset time)
                = vec2_scale 0.024 (fst normal, fst normal)
            \<and> vec2_sub (render_offsetB data time) (render_timeOffset time)
                = vec2_scale 0.022 (fst normal, fst normal)"
proof -
  define written where "written = renderSimScene u src target"
  define data where "data = texture2D written vUv"
  have zw: "z4 data = w4 data"
    unfolding data_def written_def
    by (rule texture2D_same_zw) (simp add: renderSimScene_def shader_zw)
  have n: "fst (render_normal data) = snd (snd (render_normal data))"
    unfolding render_normal_def zw by (rule normalize_xz)
  obtain nx ny nz where nrm: "render_normal data = (nx, ny, nz)"
    by (cases "render_normal data") auto
  with n have nxz: "nz = nx" by simp
  have g: "vec2_add (render_offsetG data time) (render_timeOffset time)
      = vec2_scale 0.024 (fst (render_normal data), fst (render_normal data))"
    by (simp add: render_offsetG_def render_offset_def nrm nxz vec2_add_def vec2_sub_def vec2_scale_def)
  have b: "vec2_sub (render_offsetB data time) (render_timeOffset time)
      = vec2_scale 0.022 (fst (render_normal data), fst (render_normal data))"
    by (simp add: render_offsetB_def render_offset_def nrm nxz vec2_add_def vec2_sub_def vec2_scale_def)
  from assms have nz: "u_frame u \<noteq> 0" by simp
  have out: "z4 (texels written i j) =
      (x4 (texture2D src (vec2_add (fragUv target i j)
            (sim_scale (sim_isMobile (u_resolution u)) / fst (u_resolution u), 0)))
       - x4 (texture2D src (vec2_sub (fragUv target i j)
            (sim_scale (sim_isMobile (u_resolution u)) / fst (u_resolution u), 0)))) * 0.5"
    using nz by (simp add: written_def renderSimScene_def simulationFragmentShader_def Let_def)
  have out': "w4 (texels written i j) = z4 (texels written i j)"
    by (simp add: written_def renderSimScene_def shader_zw)
  show ?thesis
    unfolding Let_def written_def [symmetric] data_def [symmetric]
    using out out' n g b by simp
qed

theorem derivative_channels_equal_witness:
  "z4 (texels (renderSimScene \<lparr>u_mouse = (-10, -10), u_resolution = (2, 2), u_time = 0, u_frame = 2\<rparr>
         (blankField 2 2) (blankField 2 2)) 0 0) = 0"
  using derivative_channels_equal [of "\<lparr>u_mouse = (-10, -10), u_resolution = (2, 2), u_time = 0, u_frame = 2\<rparr>"
      "blankField 2 2" "blankField 2 2" 0 0 "(0.5, 0.5)" 0]
  by (simp add: Let_def texture2D_zero blankField_def)

text \<open>
  The claim as it was stated fails in its last part: over a flat field, at time
  \<^verbatim>\<open>pi / 3\<close>, the green offset is \<^verbatim>\<open>(0, - 0.00014 * sin (0.43 pi))\<close>, which does
  not point along the diagonal.
\<close>

lemma sin_043_pi: "0 < sin (pi * 0.43)"
  by (rule sin_gt_zero) (simp_all add: pi_gt_zero)

theorem derivative_channels_equal_counterexample:
  "fst (render_offsetG (texture2D (renderSimScene
          \<lparr>u_mouse = (-10, -10), u_resolution = (2, 2), u_time = 0, u_frame = 2\<rparr>
          (blankField 2 2) (blankField 2 2)) (0.5, 0.5)) (pi / 3))
   \<noteq> snd (render_offsetG (texture2D (renderSimScene
          \<lparr>u_mouse = (-10, -10), u_resolution = (2, 2), u_time = 0, u_frame = 2\<rparr>
          (blankField 2 2) (blankField 2 2)) (0.5, 0.5)) (pi / 3))"
proof -
  have w: "\<And>i j. texels (renderSimScene
          \<lparr>u_mouse = (-10, -10), u_resolution = (2, 2), u_time = 0, u_frame = 2\<rparr>
          (blankField 2 2) (blankField 2 2)) i j = Vec4 0 0 0 0"
    by (simp add: renderSimScene_def simulationFragmentShader_def Let_def texture2D_zero blankField_def)
  have d: "texture2D (renderSimScene
          \<lparr>u_mouse = (-10, -10), u_resolution = (2, 2), u_time = 0, u_frame = 2\<rparr>
          (blankField 2 2) (blankField 2 2)) (0.5, 0.5) = Vec4 0 0 0 0"
    by (rule texture2D_zero) (rule w)
  show ?thesis
    unfolding d using sin_043_pi
    by (simp add: render_offsetG_def render_normal_def normalize_def render_offset_def
        render_timeOffset_def vec2_sub_def vec2_scale_def Let_def)
qed

section \<open>Invariants of a session\<close>

lemma setSize_dims [simp]:
  "fwidth (setSize f w h) = w" "fheight (setSize f w h) = h"
  by (simp_all add: setSize_def)

lemma renderSimScene_dims [simp]:
  "fwidth (renderSimScene u src target) = fwidth target"
  "fheight (renderSimScene u src target) = fheight target"
  by (simp_all add: renderSimScene_def)

lemma updateMousePosition_keeps [simp]:
  "rtA (updateMousePosition x y r s) = rtA s"
  "rtB (updateMousePosition x y r s) = rtB s"
  "frame (updateMousePosition x y r s) = frame s"
  "simResFactor (updateMousePosition x y r s) = simResFactor s"
  "dpr (updateMousePosition x y r s) = dpr s"
  "isMobile (updateMousePosition x y r s) = isMobile s"
  "simWidth (updateMousePosition x y r s) = simWidth s"
  "simHeight (updateMousePosition x y r s) = simHeight s"
  "u_resolution (simUniforms (updateMousePosition x y r s)) = u_resolution (simUniforms s)"
  by (simp_all add: updateMousePosition_def Let_def)

lemma handleTouchMove_keeps [simp]:
  "rtA (handleTouchMove n ts r s) = rtA s"
  "rtB (handleTouchMove n ts r s) = rtB s"
  "frame (handleTouchMove n ts r s) = frame s"
  "simResFactor (handleTouchMove n ts r s) = simResFactor s"
  "dpr (handleTouchMove n ts r s) = dpr s"
  "isMobile (handleTouchMove n ts r s) = isMobile s"
  "simWidth (handleTouchMove n ts r s) = simWidth s"
  "simHeight (handleTouchMove n ts r s) = simHeight s"
  "u_resolution (simUniforms (handleTouchMove n ts r s)) = u_resolution (simUniforms s)"
  by (simp_all add: handleTouchMove_def Let_def split: list.splits)

lemma pointerOff_keeps [simp]:
  "rtA (pointerOff s) = rtA s"
  "rtB (pointerOff s) = rtB s"
  "frame (pointerOff s) = frame s"
  "simResFactor (pointerOff s) = simResFactor s"
  "dpr (pointerOff s) = dpr s"
  "isMobile (pointerOff s) = isMobile s"
  "simWidth (pointerOff s) = simWidth s"
  "simHeight (pointerOff s) = simHeight s"
  "u_resolution (simUniforms (pointerOff s)) = u_resolution (simUniforms s)"
  by (simp_all add: pointerOff_def)

lemma animate_keeps [simp]:
  "rtA (animate a b s) = renderSimScene ((simUniforms s)\<lparr>u_frame := frame s, u_time := a / 1000\<rparr>) (rtA s) (rtB s)"
  "rtB (animate a b s) = rtA s"
  "frame (animate a b s) = frame s + 1"
  "simResFactor (animate a b s) = simResFactor s"
  "dpr (animate a b s) = dpr s"
  "isMobile (animate a b s) = isMobile s"
  "simWidth (animate a b s) = simWidth s"
  "simHeight (animate a b s) = simHeight s"
  "u_resolution (simUniforms (animate a b s)) = u_resolution (simUniforms s)"
  "u_mouse (simUniforms (animate a b s)) = u_mouse (simUniforms s)"
  by (simp_all add: animate_def Let_def)

lemma resize_keeps [simp]:
  "fwidth (rtA (resize w h s)) = \<lfloor>real_of_int \<lfloor>w * dpr s\<rfloor> / real_of_int (simResFactor s)\<rfloor>"
  "fheight (rtA (resize w h s)) = \<lfloor>real_of_int \<lfloor>h * dpr s\<rfloor> / real_of_int (simResFactor s)\<rfloor>"
  "fwidth (rtB (resize w h s)) = \<lfloor>real_of_int \<lfloor>w * dpr s\<rfloor> / real_of_int (simResFactor s)\<rfloor>"
  "fheight (rtB (resize w h s)) = \<lfloor>real_of_int \<lfloor>h * dpr s\<rfloor> / real_of_int (simResFactor s)\<rfloor>"
  "frame (resize w h s) = 0"
  "simResFactor (resize w h s) = simResFactor s"
  "dpr (resize w h s) = dpr s"
  "isMobile (resize w h s) = isMobile s"
  "simWidth (resize w h s) = simWidth s"
  "simHeight (resize w h s) = simHeight s"
  "u_resolution (simUniforms (resize w h s)) =
     (real_of_int \<lfloor>real_of_int \<lfloor>w * dpr s\<rfloor> / real_of_int (simResFactor s)\<rfloor>,
      real_of_int \<lfloor>real_of_int \<lfloor>h * dpr s\<rfloor> / real_of_int (simResFactor s)\<rfloor>)"
  by (simp_all add: resize_def Let_def)

lemma handle_consts:
  "simResFactor (handle s e) = simResFactor s \<and> dpr (handle s e) = dpr s
   \<and> isMobile (handle s e) = isMobile s \<and> simWidth (handle s e) = simWidth s
   \<and> simHeight (handle s e) = simHeight s"
  by (cases e) (simp_all split: list.splits)

lemma run_consts:
  "simResFactor (run s es) = simResFactor s \<and> dpr (run s es) = dpr s
   \<and> isMobile (run s es) = isMobile s \<and> simWidth (run s es) = simWidth s
   \<and> simHeight (run s es) = simHeight s"
  unfolding run_def
  by (induction es arbitrary: s) (simp_all add: handle_consts)

lemma handle_buffersAgree: "buffersAgree s \<Longrightarrow> buffersAgree (handle s e)"
  by (cases e) (auto simp: buffersAgree_def split: list.splits)

lemma run_buffersAgree: "buffersAgree s \<Longrightarrow> buffersAgree (run s es)"
  unfolding run_def
  by (induction es arbitrary: s) (simp_all add: handle_buffersAgree)

lemma initSession_buffersAgree: "buffersAgree (initSession win)"
  by (simp add: buffersAgree_def initSession_def Let_def)

lemma startup_buffersAgree:
  "startup canvasFound win now1 now2 = Some s0 \<Longrightarrow> buffersAgree s0"
  using handle_buffersAgree [OF initSession_buffersAgree, of win "AnimationFrame now1 now2"]
  by (auto simp: startup_def split: if_splits)

lemma handle_other_dims:
  assumes "buffersAgree s" and "\<not> isResize e"
  shows "fwidth (rtA (handle s e)) = fwidth (rtA s) \<and> fheight (rtA (handle s e)) = fheight (rtA s)
     \<and> fwidth (rtB (handle s e)) = fwidth (rtB s) \<and> fheight (rtB (handle s e)) = fheight (rtB s)"
  using assms by (cases e) (auto simp: buffersAgree_def split: list.splits)

lemma floor_floor_divide:
  "0 < n \<Longrightarrow> \<lfloor>real_of_int \<lfloor>x\<rfloor> / real_of_int n\<rfloor> = \<lfloor>x / real_of_int n\<rfloor>"
  by (simp add: floor_divide_real_eq_div floor_divide_of_int_eq)

section \<open>The two buffers\<close>

text \<open>
  Claim C7. In every session, after any sequence of events, the two simulation buffers
  have the same width and the same height; an event other than a resize leaves the size of
  both as it was; and right after a resize event both buffers are
  \<^verbatim>\<open>floor(innerWidth * dpr / simResFactor)\<close> wide and
  \<^verbatim>\<open>floor(innerHeight * dpr / simResFactor)\<close> high, and the frame counter is 0.
\<close>

theorem buffers_share_dimensions:
  assumes "startup canvasFound win now1 now2 = Some s0"
  shows "let s = run s0 es;
             s' = handle s e;
             r = handle s (Resize newInnerWidth newInnerHeight);
             newSimWidth = \<lfloor>newInnerWidth * dpr s / real_of_int (simResFactor s)\<rfloor>;
             newSimHeight = \<lfloor>newInnerHeight * dpr s / real_of_int (simResFactor s)\<rfloor>
         in fwidth (rtA s) = fwidth (rtB s) \<and> fheight (rtA s) = fheight (rtB s)
            \<and> (\<not> isResize e \<longrightarrow>
                 fwidth (rtA s') = fwidth (rtA s) \<and> fheight (rtA s') = fheight (rtA s)
                 \<and> fwidth (rtB s') = fwidth (rtB s) \<and> fheight (rtB s') = fheight (rtB s))
            \<and> fwidth (rtA r) = newSimWidth \<and> fheight (rtA r) = newSimHeight
            \<and> fwidth (rtB r) = newSimWidth \<and> fheight (rtB r) = newSimHeight
            \<and> frame r = 0"
proof -
  have inv: "buffersAgree (run s0 es)"
    by (rule run_buffersAgree) (rule startup_buffersAgree [OF assms])
  then have pos: "0 < simResFactor (run s0 es)"
    by (simp add: buffersAgree_def)
  show ?thesis
    unfolding Let_def
    using inv handle_other_dims [OF inv, of e] floor_floor_divide [OF pos]
    by (simp add: buffersAgree_def)
qed


theorem buffers_share_dimensions_witness:
  "startup True desktopWindow 0 0 = Some (animate 0 0 (initSession desktopWindow))
   \<and> fwidth (rtA (handle (run (animate 0 0 (initSession desktopWindow)) [MouseLeave]) (Resize 1200 900))) = 600
   \<and> fheight (rtB (handle (run (animate 0 0 (initSession desktopWindow)) [MouseLeave]) (Resize 1200 900))) = 450
   \<and> fwidth (rtA (handle (run (animate 0 0 (initSession desktopWindow)) [MouseLeave]) TouchEnd)) = 500
   \<and> frame (handle (run (animate 0 0 (initSession desktopWindow)) [MouseLeave]) (Resize 1200 900)) = 0"
proof -
  have st: "startup True desktopWindow 0 0 = Some (animate 0 0 (initSession desktopWindow))"
    by (simp add: startup_def)
  have d: "dpr (initSession desktopWindow) = 1" "simResFactor (initSession desktopWindow) = 2"
    "fwidth (rtB (initSession desktopWindow)) = 500"
    by (simp_all add: initSession_def desktopWindow_def Let_def)
  show ?thesis
    using buffers_share_dimensions [OF st, of "[MouseLeave]" TouchEnd 1200 900] st
    by (simp add: Let_def run_def d)
qed

section \<open>The tier\<close>

lemma initSession_consts:
  "isMobile (initSession win) = (innerWidth win < 768)"
  "dpr (initSession win) = (if innerWidth win < 768 then 1.25 else min (devicePixelRatio win) 2)"
  "simResFactor (initSession win) = (if innerWidth win < 768 then 3 else 2)"
  by (simp_all add: initSession_def Let_def)

lemma shader_tier_by_width:
  "sim_scale (sim_isMobile (real_of_int w, h)) = (if w < 500 then 2 else 8)"
  "sim_delta (sim_isMobile (real_of_int w, h)) = (if w < 500 then 0.432 else 0.72)"
  by (simp_all add: sim_scale_def sim_delta_def sim_isMobile_def step_glsl_def mix_def deltaBase_def)

text \<open>
  Claim C9, as amended. The page script's tier decision \<^verbatim>\<open>isMobile\<close> and the two
  constants it fixes, \<^verbatim>\<open>dpr\<close> and \<^verbatim>\<open>simResFactor\<close>, are those of the viewport at
  start-up after any sequence of events. The shader's tier constants are not fixed: in
  every step they follow the \<^verbatim>\<open>resolution\<close> uniform, which is the current size of the
  buffers, with scale 2 and delta 0.432 below a simulation width of 500 and scale 8 and
  delta 0.72 from 500 on.
\<close>

theorem tier_constants:
  assumes "startup canvasFound win now1 now2 = Some s0"
  shows "let s = run s0 es;
             resolution = u_resolution (simUniforms s)
         in isMobile s = (innerWidth win < 768)
            \<and> dpr s = (if innerWidth win < 768 then 1.25 else min (devicePixelRatio win) 2)
            \<and> simResFactor s = (if innerWidth win < 768 then 3 else 2)
            \<and> resolution = (real_of_int (fwidth (rtA s)), real_of_int (fheight (rtA s)))
            \<and> sim_scale (sim_isMobile resolution) = (if fwidth (rtA s) < 500 then 2 else 8)
            \<and> sim_delta (sim_isMobile resolution) = (if fwidth (rtA s) < 500 then 0.432 else 0.72)"
proof -
  from assms have s0: "s0 = animate now1 now2 (initSession win)"
    by (auto simp: startup_def split: if_splits)
  have inv: "buffersAgree (run s0 es)"
    by (rule run_buffersAgree) (rule startup_buffersAgree [OF assms])
  then have res: "u_resolution (simUniforms (run s0 es)) =
      (real_of_int (fwidth (rtA (run s0 es))), real_of_int (fheight (rtA (run s0 es))))"
    by (simp add: buffersAgree_def)
  show ?thesis
    unfolding Let_def res shader_tier_by_width
    by (simp add: run_consts s0 initSession_consts)
qed

theorem tier_constants_witness:
  "startup True wideWindow 0 0 = Some (animate 0 0 (initSession wideWindow))
   \<and> simResFactor (run (animate 0 0 (initSession wideWindow)) [Resize 700 800]) = 2
   \<and> dpr (run (animate 0 0 (initSession wideWindow)) [Resize 700 800]) = 1
   \<and> \<not> isMobile (run (animate 0 0 (initSession wideWindow)) [Resize 700 800])"
proof -
  have st: "startup True wideWindow 0 0 = Some (animate 0 0 (initSession wideWindow))"
    by (simp add: startup_def)
  show ?thesis
    using tier_constants [OF st, of "[Resize 700 800]"] st
    by (simp add: Let_def wideWindow_def)
qed

text \<open>
  The claim as it was stated fails: a desktop session 1200 pixels wide simulates 600
  texels across, with scale 8 and delta 0.72; resized to 700 pixels it simulates 350
  across, and the shader then uses scale 2 and delta 0.432.
\<close>

theorem tier_constants_counterexample:
  "startup True wideWindow 0 0 = Some (animate 0 0 (initSession wideWindow))
   \<and> sim_scale (sim_isMobile (u_resolution (simUniforms (animate 0 0 (initSession wideWindow))))) = 8
   \<and> sim_scale (sim_isMobile (u_resolution (simUniforms
        (run (animate 0 0 (initSession wideWindow)) [Resize 700 800])))) = 2
   \<and> sim_delta (sim_isMobile (u_resolution (simUniforms (animate 0 0 (initSession wideWindow))))) = 0.72
   \<and> sim_delta (sim_isMobile (u_resolution (simUniforms
        (run (animate 0 0 (initSession wideWindow)) [Resize 700 800])))) = 0.432"
proof -
  have a: "u_resolution (simUniforms (initSession wideWindow)) = (real_of_int 600, real_of_int 400)"
    by (simp add: initSession_def wideWindow_def Let_def)
  have d: "dpr (initSession wideWindow) = 1" "simResFactor (initSession wideWindow) = 2"
    by (simp_all add: initSession_def wideWindow_def Let_def)
  have b: "u_resolution (simUniforms (run (animate 0 0 (initSession wideWindow)) [Resize 700 800]))
      = (real_of_int 350, real_of_int 400)"
    by (simp add: run_def d)
  show ?thesis
    unfolding b
    by (simp add: a startup_def sim_scale_def sim_delta_def sim_isMobile_def step_glsl_def
        mix_def deltaBase_def)
qed

section \<open>The pointer mapping\<close>

text \<open>
  The pointer is scaled by the simulation size of start-up, whatever has happened since.
\<close>

lemma pointer_mapping_uses_startup_size:
  assumes "startup canvasFound win now1 now2 = Some s0"
  shows "u_mouse (simUniforms (handle (run s0 es) (MouseMove clientX clientY rect))) =
     ((clientX - rect_left rect) / rect_width rect * real_of_int (simWidth s0),
      (1 - (clientY - rect_top rect) / rect_height rect) * real_of_int (simHeight s0))"
  by (simp add: updateMousePosition_def Let_def run_consts)

text \<open>
  As long as no resize has happened, that size is the size of the field, and the pointer
  is mapped as the coordinate mapping says.
\<close>

lemma handle_sizedAsAtStartup:
  "sizedAsAtStartup s \<Longrightarrow> \<not> isResize e \<Longrightarrow> sizedAsAtStartup (handle s e)"
  by (cases e) (auto simp: sizedAsAtStartup_def split: list.splits)

lemma run_sizedAsAtStartup:
  "sizedAsAtStartup s \<Longrightarrow> \<forall>e \<in> set es. \<not> isResize e \<Longrightarrow> sizedAsAtStartup (run s es)"
  unfolding run_def
  by (induction es arbitrary: s) (simp_all add: handle_sizedAsAtStartup)

lemma startup_sizedAsAtStartup:
  assumes "startup canvasFound win now1 now2 = Some s0"
  shows "sizedAsAtStartup s0"
proof -
  have "sizedAsAtStartup (initSession win)"
    by (simp add: sizedAsAtStartup_def initSession_def Let_def)
  then have "sizedAsAtStartup (handle (initSession win) (AnimationFrame now1 now2))"
    by (rule handle_sizedAsAtStartup) simp
  with assms show ?thesis
    by (auto simp: startup_def split: if_splits)
qed

lemma pointer_mapping_without_resize:
  assumes "startup canvasFound win now1 now2 = Some s0"
    and "\<forall>e \<in> set es. \<not> isResize e"
  shows "u_mouse (simUniforms (handle (run s0 es) (MouseMove clientX clientY rect))) =
     ((clientX - rect_left rect) / rect_width rect * real_of_int (fwidth (rtA (run s0 es))),
      (1 - (clientY - rect_top rect) / rect_height rect) * real_of_int (fheight (rtA (run s0 es))))"
proof -
  have "sizedAsAtStartup (run s0 es)"
    by (rule run_sizedAsAtStartup [OF startup_sizedAsAtStartup [OF assms(1)] assms(2)])
  then show ?thesis
    by (simp add: sizedAsAtStartup_def updateMousePosition_def Let_def)
qed

text \<open>
  Claim C8, at a failing input. A desktop session starts 1000 by 800 pixels, so 500 by 400
  texels, and is resized to 2000 by 800 pixels, so 1000 by 400 texels. A mouse move to the
  middle of the canvas then stores the pointer at (250, 200), where the mapping onto the
  current field gives x = 500: the shader divides the pointer by the current resolution
  and puts the ripple a quarter of the way across.
\<close>

theorem pointer_mapping_after_resize:
  "startup True desktopWindow 0 0 = Some (animate 0 0 (initSession desktopWindow))
   \<and> fwidth (rtA (run (animate 0 0 (initSession desktopWindow)) [Resize 2000 800])) = 1000
   \<and> fheight (rtA (run (animate 0 0 (initSession desktopWindow)) [Resize 2000 800])) = 400
   \<and> u_resolution (simUniforms (run (animate 0 0 (initSession desktopWindow)) [Resize 2000 800]))
       = (1000, 400)
   \<and> u_mouse (simUniforms (run (animate 0 0 (initSession desktopWindow))
        [Resize 2000 800,
         MouseMove 1000 400 \<lparr>rect_left = 0, rect_top = 0, rect_width = 2000, rect_height = 800\<rparr>]))
       = (250, 200)
   \<and> (1000 - 0) / 2000 * real_of_int (fwidth (rtA (run (animate 0 0 (initSession desktopWindow))
        [Resize 2000 800,
         MouseMove 1000 400 \<lparr>rect_left = 0, rect_top = 0, rect_width = 2000, rect_height = 800\<rparr>])))
       = 500"
proof -
  have d: "dpr (initSession desktopWindow) = 1" "simResFactor (initSession desktopWindow) = 2"
    "simWidth (initSession desktopWindow) = 500" "simHeight (initSession desktopWindow) = 400"
    by (simp_all add: initSession_def desktopWindow_def Let_def)
  show ?thesis
    by (simp add: run_def startup_def d updateMousePosition_def Let_def)
qed


section \<open>The start-up impulse\<close>

lemma handle_clearedAtFrame1: "clearedAtFrame1 s \<Longrightarrow> clearedAtFrame1 (handle s e)"
  by (cases e)
    (auto simp: clearedAtFrame1_def renderSimScene_def simulationFragmentShader_def
      split: list.splits)

lemma run_clearedAtFrame1: "clearedAtFrame1 s \<Longrightarrow> clearedAtFrame1 (run s es)"
  unfolding run_def
  by (induction es arbitrary: s) (simp_all add: handle_clearedAtFrame1)

lemma startup_clearedAtFrame1:
  assumes "startup canvasFound win now1 now2 = Some s0"
  shows "clearedAtFrame1 s0"
proof -
  have "clearedAtFrame1 (initSession win)"
    by (simp add: clearedAtFrame1_def initSession_def Let_def)
  then have "clearedAtFrame1 (handle (initSession win) (AnimationFrame now1 now2))"
    by (rule handle_clearedAtFrame1)
  with assms show ?thesis
    by (auto simp: startup_def split: if_splits)
qed

lemma shader_frame1_cleared:
  assumes "\<And>p. textureA p = Vec4 0 0 0 0" and "u_frame u = 1" and "fst (u_mouse u) \<le> 0"
  shows "x4 (simulationFragmentShader textureA u uv) =
     (if centerDistSq uv < 0.25 then 2.5 * (1 - centerDistSq uv * 2) else 0)"
  using assms(2,3)
  by (simp add: simulationFragmentShader_def Let_def assms(1) centerDistSq_def)

text \<open>
  Claim C5, as amended. In every session, at a step with frame index 0 or 1 taken while
  the pointer is off-field, of two texels within squared distance 0.25 of the field
  centre the one closer to the centre is written a height at least that of the farther
  one. (Frame 0 writes zero everywhere; frame 1 reads what frame 0 wrote and adds
  \<^verbatim>\<open>2.5 * (1 - 2 * distSq)\<close>.)
\<close>

theorem startup_impulse_monotone:
  assumes "startup canvasFound win now1 now2 = Some s0"
    and "s = run s0 es"
    and "frame s = 0 \<or> frame s = 1"
    and "fst (u_mouse (simUniforms s)) \<le> 0"
    and "centerDistSq (fragUv (rtB s) i j) \<le> centerDistSq (fragUv (rtB s) i' j')"
    and "centerDistSq (fragUv (rtB s) i' j') < 0.25"
  shows "x4 (texels (rtA (animate t1 t2 s)) i' j') \<le> x4 (texels (rtA (animate t1 t2 s)) i j)"
proof -
  have cl: "clearedAtFrame1 s"
    unfolding assms(2)
    by (rule run_clearedAtFrame1) (rule startup_clearedAtFrame1 [OF assms(1)])
  from assms(3) show ?thesis
  proof
    assume "frame s = 0"
    then show ?thesis
      by (simp add: renderSimScene_def simulationFragmentShader_def)
  next
    assume f1: "frame s = 1"
    with cl have z: "\<And>p. texture2D (rtA s) p = Vec4 0 0 0 0"
      by (simp add: clearedAtFrame1_def texture2D_zero)
    have h: "\<And>a b. x4 (texels (rtA (animate t1 t2 s)) a b) =
        (if centerDistSq (fragUv (rtB s) a b) < 0.25
         then 2.5 * (1 - centerDistSq (fragUv (rtB s) a b) * 2) else 0)"
      using f1 assms(4) by (simp add: renderSimScene_def shader_frame1_cleared [OF z])
    show ?thesis
      unfolding h using assms(5,6) by simp
  qed
qed

lemma animate_texel:
  "texels (rtA (animate a b s)) i j =
     simulationFragmentShader (texture2D (rtA s))
       ((simUniforms s)\<lparr>u_frame := frame s, u_time := a / 1000\<rparr>) (fragUv (rtB s) i j)"
  by (simp add: renderSimScene_def)

lemma phone_size:
  "simWidth (initSession phoneWindow) = 100" "simHeight (initSession phoneWindow) = 100"
  "fwidth (rtA (initSession phoneWindow)) = 100" "fheight (rtA (initSession phoneWindow)) = 100"
  "fwidth (rtB (initSession phoneWindow)) = 100" "fheight (rtB (initSession phoneWindow)) = 100"
  "frame (initSession phoneWindow) = 0"
  "simUniforms (initSession phoneWindow) =
     \<lparr>u_mouse = (-10, -10), u_resolution = (100, 100), u_time = 0, u_frame = 0\<rparr>"
  by (simp_all add: initSession_def phoneWindow_def Let_def)

theorem startup_impulse_monotone_witness:
  "x4 (texels (rtA (animate 0 0 (animate 0 0 (initSession phoneWindow)))) 80 50)
     \<le> x4 (texels (rtA (animate 0 0 (animate 0 0 (initSession phoneWindow)))) 50 50)"
proof -
  have st: "startup True phoneWindow 0 0 = Some (animate 0 0 (initSession phoneWindow))"
    by (simp add: startup_def)
  show ?thesis
    using startup_impulse_monotone [OF st, of "animate 0 0 (initSession phoneWindow)" "[]" 50 50 80 50 0 0]
    by (simp add: run_def phone_size centerDistSq_def fragUv_def vec2_sub_def dot_def)
qed

text \<open>
  The claim as it was stated fails when the pointer is on the field at frame 1: with the
  pointer over the texel in column 80 of row 50 of a 100 by 100 field, that texel is
  written 3.23475 and the texel at the centre 2.49975.
\<close>

theorem startup_impulse_monotone_counterexample:
  "startup True phoneWindow 0 0 = Some (animate 0 0 (initSession phoneWindow))
   \<and> frame pointedPhone = 1
   \<and> centerDistSq (fragUv (rtB pointedPhone) 50 50) \<le> centerDistSq (fragUv (rtB pointedPhone) 80 50)
   \<and> centerDistSq (fragUv (rtB pointedPhone) 80 50) < 0.25
   \<and> x4 (texels (rtA (animate 0 0 pointedPhone)) 50 50)
       < x4 (texels (rtA (animate 0 0 pointedPhone)) 80 50)"
proof -
  have z: "texture2D (rtA (animate 0 0 (initSession phoneWindow))) = no_texture"
    unfolding no_texture_def
    by (rule ext, rule texture2D_zero)
      (simp add: renderSimScene_def simulationFragmentShader_def phone_size)
  have m: "u_mouse (simUniforms pointedPhone) = (80.5, 50.5)"
    "u_resolution (simUniforms pointedPhone) = (100, 100)"
    by (simp_all add: pointedPhone_def run_def updateMousePosition_def Let_def phone_size)
  have r: "rtA pointedPhone = rtA (animate 0 0 (initSession phoneWindow))"
    "rtB pointedPhone = rtB (animate 0 0 (initSession phoneWindow))"
    "frame pointedPhone = 1"
    by (simp_all add: pointedPhone_def run_def phone_size)
  have a: "x4 (texels (rtA (animate 0 0 pointedPhone)) 50 50) = 2.49975"
    unfolding animate_texel r z
    by (simp add: m simulationFragmentShader_def no_texture_def Let_def phone_size
        fragUv_def vec2_sub_def vec2_div_def dot_def)
  have b: "x4 (texels (rtA (animate 0 0 pointedPhone)) 80 50) = 3.23475"
    unfolding animate_texel r z
    by (simp add: m simulationFragmentShader_def no_texture_def Let_def phone_size
        fragUv_def vec2_sub_def vec2_div_def dot_def smoothstep_def clamp_def)
  show ?thesis
    unfolding a b
    by (simp add: r startup_def phone_size centerDistSq_def fragUv_def vec2_sub_def dot_def)
qed

section \<open>The end-to-end scenario on a 100 by 100 field\<close>

subsection \<open>One step on the weighted sums of row 50\<close>

lemma weightedRow_neighbours:
  "weightedRow (\<lambda>i. a (max 0 (min 99 (i + 2)))) + weightedRow (\<lambda>i. a (max 0 (min 99 (i - 2))))
     = 2 * weightedRow a"
  unfolding weightedRow_def
  by (simp add: rowWeight_def upto.simps [of 0] upto.simps [of 1] algebra_simps)

lemma weightedRow_cong:
  assumes "\<And>i. 0 \<le> i \<Longrightarrow> i \<le> 99 \<Longrightarrow> a i = b i"
  shows "weightedRow a = weightedRow b"
  unfolding weightedRow_def
  by (rule arg_cong [where f = sum_list], rule map_cong) (simp_all add: assms)

lemma spec_update_add:
  "fst (spec_update d (h + h') (v + v') (l + l') (r + r')) =
     fst (spec_update d h v l r) + fst (spec_update d h' v' l' r')"
  "snd (spec_update d (h + h') (v + v') (l + l') (r + r')) =
     snd (spec_update d h v l r) + snd (spec_update d h' v' l' r')"
  by (simp_all add: spec_update_def Let_def field_simps)

lemma spec_update_scale:
  "fst (spec_update d (c * h) (c * v) (c * l) (c * r)) = c * fst (spec_update d h v l r)"
  "snd (spec_update d (c * h) (c * v) (c * l) (c * r)) = c * snd (spec_update d h v l r)"
  by (simp_all add: spec_update_def Let_def field_simps)

lemma spec_update_zero: "spec_update d 0 0 0 0 = (0, 0)"
  by (simp add: spec_update_def)

lemma spec_update_sum:
  "(\<Sum>i\<leftarrow>xs. w i * fst (spec_update d (h i) (v i) (l i) (r i))) =
     fst (spec_update d (\<Sum>i\<leftarrow>xs. w i * h i) (\<Sum>i\<leftarrow>xs. w i * v i)
       (\<Sum>i\<leftarrow>xs. w i * l i) (\<Sum>i\<leftarrow>xs. w i * r i))"
  "(\<Sum>i\<leftarrow>xs. w i * snd (spec_update d (h i) (v i) (l i) (r i))) =
     snd (spec_update d (\<Sum>i\<leftarrow>xs. w i * h i) (\<Sum>i\<leftarrow>xs. w i * v i)
       (\<Sum>i\<leftarrow>xs. w i * l i) (\<Sum>i\<leftarrow>xs. w i * r i))"
  by (induction xs) (simp_all add: spec_update_zero spec_update_add spec_update_scale)

lemma spec_update_balanced:
  assumes "l + r = 2 * h"
  shows "spec_update d h v l r = spec_update d h v h h"
proof -
  from assms have r: "r = 2 * h - l" by simp
  show ?thesis
    unfolding r by (simp add: spec_update_def Let_def)
qed

lemma texture2D_exact:
  assumes "fst uv * real_of_int (fwidth f) - 0.5 = real_of_int i"
    and "snd uv * real_of_int (fheight f) - 0.5 = real_of_int j"
  shows "texture2D f uv = texelFetch f i j"
  unfolding texture2D_def Let_def assms
  by (simp add: vec4_mix_def mix_def)

lemma texel_step_100:
  assumes f: "fwidth f = 100" "fheight f = 100"
    and t: "fwidth target = 100" "fheight target = 100"
    and u: "u_resolution u = (100, 100)" "2 \<le> u_frame u" "fst (u_mouse u) \<le> 0"
    and i: "0 \<le> i" "i \<le> 99"
  shows "x4 (texels (renderSimScene u f target) i 50) =
      fst (spec_update 0.432 (x4 (texels f i 50)) (y4 (texels f i 50))
        (x4 (texels f (max 0 (min 99 (i - 2))) 50)) (x4 (texels f (max 0 (min 99 (i + 2))) 50)))"
    and "y4 (texels (renderSimScene u f target) i 50) =
      snd (spec_update 0.432 (x4 (texels f i 50)) (y4 (texels f i 50))
        (x4 (texels f (max 0 (min 99 (i - 2))) 50)) (x4 (texels f (max 0 (min 99 (i + 2))) 50)))"
proof -
  have c: "texture2D f (fragUv target i 50) = texels f i 50"
    using i
    by (subst texture2D_exact [of _ _ i 50])
      (simp_all add: fragUv_def f t texelFetch_def add_divide_distrib)
  have l: "texture2D f (fst (fragUv target i 50) - 2 / 100, snd (fragUv target i 50))
      = texels f (max 0 (min 99 (i - 2))) 50"
    by (subst texture2D_exact [of _ _ "i - 2" 50])
      (simp_all add: fragUv_def f t texelFetch_def add_divide_distrib)
  have r: "texture2D f (fst (fragUv target i 50) + 2 / 100, snd (fragUv target i 50))
      = texels f (max 0 (min 99 (i + 2))) 50"
    by (subst texture2D_exact [of _ _ "i + 2" 50])
      (simp_all add: fragUv_def f t texelFetch_def add_divide_distrib)
  have one: "1 \<le> u_frame u" using u(2) by simp
  have imp: "spec_impulse (u_frame u) (fragUv target i 50) = 0"
    using u(2) by (simp add: spec_impulse_def)
  have tier: "spec_tier (100, 100) = LowTier"
    by (simp add: spec_tier_def)
  have st: "spec_step (texture2D f) (100, 100) (fragUv target i 50) =
      spec_update 0.432 (x4 (texels f i 50)) (y4 (texels f i 50))
        (x4 (texels f (max 0 (min 99 (i - 2))) 50)) (x4 (texels f (max 0 (min 99 (i + 2))) 50))"
    unfolding spec_step_def Let_def tier spec_scale.simps fst_conv c l r
    by (simp add: spec_delta_def)
  show "x4 (texels (renderSimScene u f target) i 50) =
      fst (spec_update 0.432 (x4 (texels f i 50)) (y4 (texels f i 50))
        (x4 (texels f (max 0 (min 99 (i - 2))) 50)) (x4 (texels f (max 0 (min 99 (i + 2))) 50)))"
    using shader_update [OF one u(3), of "texture2D f" "fragUv target i 50"]
    by (simp add: renderSimScene_def u(1) st imp)
  show "y4 (texels (renderSimScene u f target) i 50) =
      snd (spec_update 0.432 (x4 (texels f i 50)) (y4 (texels f i 50))
        (x4 (texels f (max 0 (min 99 (i - 2))) 50)) (x4 (texels f (max 0 (min 99 (i + 2))) 50)))"
    using shader_update [OF one u(3), of "texture2D f" "fragUv target i 50"]
    by (simp add: renderSimScene_def u(1) st)
qed

lemma weighted_step_100:
  assumes f: "fwidth f = 100" "fheight f = 100"
    and t: "fwidth target = 100" "fheight target = 100"
    and u: "u_resolution u = (100, 100)" "2 \<le> u_frame u" "fst (u_mouse u) \<le> 0"
  shows "(weightedHeight (renderSimScene u f target), weightedVelocity (renderSimScene u f target))
     = osc (weightedHeight f, weightedVelocity f)"
proof -
  let ?h = "\<lambda>i. x4 (texels f i 50)"
  let ?v = "\<lambda>i. y4 (texels f i 50)"
  let ?l = "\<lambda>i. x4 (texels f (max 0 (min 99 (i - 2))) 50)"
  let ?r = "\<lambda>i. x4 (texels f (max 0 (min 99 (i + 2))) 50)"
  have bal: "weightedRow ?l + weightedRow ?r = 2 * weightedRow ?h"
    using weightedRow_neighbours [of ?h] by simp
  have "weightedHeight (renderSimScene u f target) =
      weightedRow (\<lambda>i. fst (spec_update 0.432 (?h i) (?v i) (?l i) (?r i)))"
    unfolding weightedHeight_def
    by (rule weightedRow_cong) (rule texel_step_100 [OF f t u])
  also have "\<dots> = fst (spec_update 0.432 (weightedRow ?h) (weightedRow ?v) (weightedRow ?l) (weightedRow ?r))"
    unfolding weightedRow_def by (rule spec_update_sum)
  finally have a: "weightedHeight (renderSimScene u f target) =
      fst (spec_update 0.432 (weightedRow ?h) (weightedRow ?v) (weightedRow ?h) (weightedRow ?h))"
    by (simp only: spec_update_balanced [OF bal])
  have "weightedVelocity (renderSimScene u f target) =
      weightedRow (\<lambda>i. snd (spec_update 0.432 (?h i) (?v i) (?l i) (?r i)))"
    unfolding weightedVelocity_def
    by (rule weightedRow_cong) (rule texel_step_100 [OF f t u])
  also have "\<dots> = snd (spec_update 0.432 (weightedRow ?h) (weightedRow ?v) (weightedRow ?l) (weightedRow ?r))"
    unfolding weightedRow_def by (rule spec_update_sum)
  finally have b: "weightedVelocity (renderSimScene u f target) =
      snd (spec_update 0.432 (weightedRow ?h) (weightedRow ?v) (weightedRow ?h) (weightedRow ?h))"
    by (simp only: spec_update_balanced [OF bal])
  show ?thesis
    unfolding osc_def prod_eq_iff fst_conv snd_conv a b
    by (simp add: weightedHeight_def weightedVelocity_def)
qed


subsection \<open>Frames in a row\<close>

lemma run_frames_Suc: "run s (frames (Suc n)) = animate 0 0 (run s (frames n))"
proof -
  have "frames (Suc n) = frames n @ [AnimationFrame 0 0]"
    unfolding frames_def by (simp add: replicate_append_same)
  then show ?thesis
    by (simp add: run_def)
qed

lemma run_frames_0: "run s (frames 0) = s"
  by (simp add: run_def frames_def)

lemma animate_quiet100: "quiet100 s \<Longrightarrow> quiet100 (animate a b s)"
  by (simp add: quiet100_def)

lemma frames_quiet100: "quiet100 s \<Longrightarrow> quiet100 (run s (frames n))"
  by (induction n) (simp_all add: run_frames_0 run_frames_Suc animate_quiet100)

lemma frames_frame: "frame (run s (frames n)) = frame s + int n"
  by (induction n) (simp_all add: run_frames_0 run_frames_Suc)

lemma weighted_frames:
  assumes "quiet100 s" and "2 \<le> frame s"
  shows "(weightedHeight (rtA (run s (frames n))), weightedVelocity (rtA (run s (frames n))))
     = (osc ^^ n) (weightedHeight (rtA s), weightedVelocity (rtA s))"
proof (induction n)
  case 0
  show ?case by (simp add: run_frames_0)
next
  case (Suc n)
  let ?s = "run s (frames n)"
  have q: "quiet100 ?s" by (rule frames_quiet100 [OF assms(1)])
  have fr: "2 \<le> frame ?s" using assms(2) by (simp add: frames_frame)
  have "(weightedHeight (rtA (animate 0 0 ?s)), weightedVelocity (rtA (animate 0 0 ?s)))
      = osc (weightedHeight (rtA ?s), weightedVelocity (rtA ?s))"
    using q fr
    by (simp add: quiet100_def weighted_step_100)
  then show ?case
    by (simp add: run_frames_Suc Suc.IH)
qed

lemma first_frame_clears:
  assumes "frame s = 0"
  shows "texels (rtA (run s (frames 1))) i j = Vec4 0 0 0 0"
  using assms
  by (simp add: frames_def run_def renderSimScene_def simulationFragmentShader_def)

lemma second_frame_impulse:
  assumes "quiet100 s" and "frame s = 0"
  shows "x4 (texels (rtA (run s (frames 2))) i j) =
           spec_impulse 1 ((real_of_int i + 0.5) / 100, (real_of_int j + 0.5) / 100)"
    and "y4 (texels (rtA (run s (frames 2))) i j) = 0"
proof -
  have f2: "frames 2 = [AnimationFrame 0 0, AnimationFrame 0 0]"
    by (simp add: frames_def numeral_2_eq_2)
  have z: "texture2D (rtA (animate 0 0 s)) = no_texture"
    unfolding no_texture_def
    by (rule ext, rule texture2D_zero)
      (simp add: renderSimScene_def simulationFragmentShader_def assms(2))
  let ?u = "(simUniforms (animate 0 0 s))\<lparr>u_frame := frame (animate 0 0 s), u_time := 0 / 1000\<rparr>"
  have u: "1 \<le> u_frame ?u" "fst (u_mouse ?u) \<le> 0" "u_frame ?u = 1"
    using assms by (simp_all add: quiet100_def)
  have uv: "fragUv (rtB (animate 0 0 s)) i j =
      ((real_of_int i + 0.5) / 100, (real_of_int j + 0.5) / 100)"
    using assms(1) by (simp add: fragUv_def quiet100_def)
  have t: "texels (rtA (run s (frames 2))) i j =
      simulationFragmentShader no_texture ?u (fragUv (rtB (animate 0 0 s)) i j)"
    unfolding f2 run_def foldl.simps handle.simps animate_texel z ..
  have sp: "spec_step no_texture r p = (0, 0)" for r p
    by (simp add: spec_step_def spec_update_def no_texture_def)
  show "x4 (texels (rtA (run s (frames 2))) i j) =
           spec_impulse 1 ((real_of_int i + 0.5) / 100, (real_of_int j + 0.5) / 100)"
    unfolding t using shader_update [OF u(1,2), of no_texture "fragUv (rtB (animate 0 0 s)) i j"]
    by (simp only: sp u(3) uv fst_conv add_0)
  show "y4 (texels (rtA (run s (frames 2))) i j) = 0"
    unfolding t using shader_update [OF u(1,2), of no_texture "fragUv (rtB (animate 0 0 s)) i j"]
    by (simp only: sp snd_conv)
qed

lemma impulse_row_sum:
  "weightedRow (\<lambda>i. spec_impulse 1 ((real_of_int i + 0.5) / 100, (real_of_int 50 + 0.5) / 100))
     = 423317 / 80"
  unfolding weightedRow_def
  by (simp add: rowWeight_def spec_impulse_def upto.simps [of 0] upto.simps [of 1] power2_eq_square)

lemma weighted_after_two:
  assumes "quiet100 s" and "frame s = 0"
  shows "weightedHeight (rtA (run s (frames 2))) = 423317 / 80"
    and "weightedVelocity (rtA (run s (frames 2))) = 0"
proof -
  show "weightedHeight (rtA (run s (frames 2))) = 423317 / 80"
    unfolding weightedHeight_def second_frame_impulse(1) [OF assms]
    by (rule impulse_row_sum)
  show "weightedVelocity (rtA (run s (frames 2))) = 0"
    unfolding weightedVelocity_def second_frame_impulse(2) [OF assms]
    by (simp add: weightedRow_def)
qed

lemma weightedRow_bound:
  assumes "\<And>i. 0 \<le> i \<Longrightarrow> i \<le> 99 \<Longrightarrow> \<bar>a i\<bar> \<le> m"
  shows "\<bar>weightedRow a\<bar> \<le> 2550 * m"
proof -
  have "\<bar>weightedRow a\<bar> \<le> (\<Sum>i\<leftarrow>[0..99]. \<bar>rowWeight i * a i\<bar>)"
    unfolding weightedRow_def
    using sum_list_abs [of "map (\<lambda>i. rowWeight i * a i) [0..99]"]
    by (simp add: comp_def)
  also have "\<dots> \<le> (\<Sum>i\<leftarrow>[0..99]. rowWeight i * m)"
  proof (rule sum_list_mono)
    fix i assume "i \<in> set [0..99]"
    then have i: "0 \<le> i" "i \<le> 99" by simp_all
    then have w: "0 \<le> rowWeight i"
      by (simp add: rowWeight_def)
    have "\<bar>rowWeight i * a i\<bar> = rowWeight i * \<bar>a i\<bar>"
      using w by (simp add: abs_mult)
    also have "\<dots> \<le> rowWeight i * m"
      by (rule mult_left_mono [OF assms [OF i] w])
    finally show "\<bar>rowWeight i * a i\<bar> \<le> rowWeight i * m" .
  qed
  also have "\<dots> = 2550 * m"
    by (simp add: rowWeight_def upto.simps [of 0] upto.simps [of 1])
  finally show ?thesis .
qed

lemma weightedHeight_le_max:
  assumes "fwidth f = 100" and "fheight f = 100"
  shows "\<bar>weightedHeight f\<bar> \<le> 2550 * maxAbsHeight f"
  unfolding weightedHeight_def
proof (rule weightedRow_bound)
  fix i :: int assume i: "0 \<le> i" "i \<le> 99"
  have "(\<lambda>(i, j). \<bar>x4 (texels f i j)\<bar>) (i, 50)
      \<in> (\<lambda>(i, j). \<bar>x4 (texels f i j)\<bar>) ` ({0..<fwidth f} \<times> {0..<fheight f})"
    using i by (intro imageI) (simp add: assms)
  then show "\<bar>x4 (texels f i 50)\<bar> \<le> maxAbsHeight f"
    unfolding maxAbsHeight_def by (intro Max_ge) simp_all
qed


subsection \<open>Powers of the oscillator\<close>

lemma osc_eq:
  "osc p = (0.999 * fst p + 0.431568 * snd p,
            - 0.00215813376 * fst p + (24370207183 / 24414062500) * snd p)"
  by (simp add: osc_def spec_update_def Let_def field_simps)

lemma osc_power_linear:
  "(osc ^^ n) (S, T) = (m11 n * S + m12 n * T, m21 n * S + m22 n * T)"
proof (induction n arbitrary: S T)
  case 0
  show ?case by (simp add: m11_def m12_def m21_def m22_def)
next
  case (Suc n)
  have a: "m11 (Suc n) = 0.999 * m11 n + 0.431568 * m21 n"
    "m21 (Suc n) = - 0.00215813376 * m11 n + (24370207183 / 24414062500) * m21 n"
    using Suc.IH [of 1 0] by (simp_all add: m11_def m21_def osc_eq)
  have b: "m12 (Suc n) = 0.999 * m12 n + 0.431568 * m22 n"
    "m22 (Suc n) = - 0.00215813376 * m12 n + (24370207183 / 24414062500) * m22 n"
    using Suc.IH [of 0 1] by (simp_all add: m12_def m22_def osc_eq)
  have "(osc ^^ Suc n) (S, T) = osc ((osc ^^ n) (S, T))"
    by simp
  also have "\<dots> = osc (m11 n * S + m12 n * T, m21 n * S + m22 n * T)"
    by (simp only: Suc.IH)
  also have "\<dots> = (m11 (Suc n) * S + m12 (Suc n) * T, m21 (Suc n) * S + m22 (Suc n) * T)"
    unfolding osc_eq fst_conv snd_conv a b by (simp add: field_simps)
  finally show ?case .
qed

lemma osc_power_add:
  "m11 (m + n) = m11 m * m11 n + m12 m * m21 n"
  "m12 (m + n) = m11 m * m12 n + m12 m * m22 n"
  "m21 (m + n) = m21 m * m11 n + m22 m * m21 n"
  "m22 (m + n) = m21 m * m12 n + m22 m * m22 n"
proof -
  have "(osc ^^ (m + n)) (1, 0) = (osc ^^ m) ((osc ^^ n) (1, 0))"
    by (simp add: funpow_add)
  also have "\<dots> = (osc ^^ m) (m11 n, m21 n)"
    by (simp add: m11_def m21_def)
  finally have a: "(osc ^^ (m + n)) (1, 0) = (m11 m * m11 n + m12 m * m21 n, m21 m * m11 n + m22 m * m21 n)"
    by (simp add: osc_power_linear)
  have "(osc ^^ (m + n)) (0, 1) = (osc ^^ m) ((osc ^^ n) (0, 1))"
    by (simp add: funpow_add)
  also have "\<dots> = (osc ^^ m) (m12 n, m22 n)"
    by (simp add: m12_def m22_def)
  finally have b: "(osc ^^ (m + n)) (0, 1) = (m11 m * m12 n + m12 m * m22 n, m21 m * m12 n + m22 m * m22 n)"
    by (simp add: osc_power_linear)
  show "m11 (m + n) = m11 m * m11 n + m12 m * m21 n"
    "m12 (m + n) = m11 m * m12 n + m12 m * m22 n"
    "m21 (m + n) = m21 m * m11 n + m22 m * m21 n"
    "m22 (m + n) = m21 m * m12 n + m22 m * m22 n"
    unfolding m11_def [of "m + n"] m12_def [of "m + n"] m21_def [of "m + n"] m22_def [of "m + n"] a b
    by simp_all
qed

lemma scaled_mult_lower:
  fixes bl b bu c :: real
  assumes "bl \<le> b" and "b \<le> bu"
  shows "min (c * bl) (c * bu) \<le> c * b"
proof (cases "0 \<le> c")
  case True
  then have "c * bl \<le> c * b" using assms(1) by (rule_tac mult_left_mono)
  then show ?thesis by simp
next
  case False
  then have "c * bu \<le> c * b" using assms(2) by (intro mult_left_mono_neg) simp_all
  then show ?thesis by simp
qed

lemma scaled_mult_upper:
  fixes bl b bu c :: real
  assumes "bl \<le> b" and "b \<le> bu"
  shows "c * b \<le> max (c * bl) (c * bu)"
proof (cases "0 \<le> c")
  case True
  then have "c * b \<le> c * bu" using assms(2) by (rule_tac mult_left_mono)
  then show ?thesis by simp
next
  case False
  then have "c * b \<le> c * bl" using assms(1) by (intro mult_left_mono_neg) simp_all
  then show ?thesis by simp
qed

lemma interval_mult:
  fixes a b :: real
  assumes "al \<le> a" and "a \<le> au" and "bl \<le> b" and "b \<le> bu"
  shows "min (min (al * bl) (al * bu)) (min (au * bl) (au * bu)) \<le> a * b"
    and "a * b \<le> max (max (al * bl) (al * bu)) (max (au * bl) (au * bu))"
proof -
  have l: "min (al * b) (au * b) \<le> a * b"
    using scaled_mult_lower [OF assms(1,2), of b] by (simp add: mult.commute)
  have u: "a * b \<le> max (al * b) (au * b)"
    using scaled_mult_upper [OF assms(1,2), of b] by (simp add: mult.commute)
  have l1: "min (al * bl) (al * bu) \<le> al * b" by (rule scaled_mult_lower [OF assms(3,4)])
  have l2: "min (au * bl) (au * bu) \<le> au * b" by (rule scaled_mult_lower [OF assms(3,4)])
  have u1: "al * b \<le> max (al * bl) (al * bu)" by (rule scaled_mult_upper [OF assms(3,4)])
  have u2: "au * b \<le> max (au * bl) (au * bu)" by (rule scaled_mult_upper [OF assms(3,4)])
  show "min (min (al * bl) (al * bu)) (min (au * bl) (au * bu)) \<le> a * b"
    using l l1 l2 by linarith
  show "a * b \<le> max (max (al * bl) (al * bu)) (max (au * bl) (au * bu))"
    using u u1 u2 by linarith
qed

lemma inRange_mult:
  assumes "inRange p a" and "inRange q b"
  shows "real_of_int (mulLo p q) \<le> (a * 1000000000) * (b * 1000000000)"
    and "(a * 1000000000) * (b * 1000000000) \<le> real_of_int (mulHi p q)"
  using interval_mult [of "real_of_int (fst p)" "a * 1000000000" "real_of_int (snd p)"
      "real_of_int (fst q)" "b * 1000000000" "real_of_int (snd q)"] assms
  by (simp_all add: inRange_def mulLo_def mulHi_def of_int_min of_int_max)

lemma entryOK_sound:
  assumes "inRange p a" and "inRange q b" and "inRange r c" and "inRange s d" and "entryOK p q r s z"
  shows "inRange z (a * b + c * d)"
proof -
  let ?Q = "1000000000 :: real"
  note pq = inRange_mult [OF assms(1,2)]
  note rs = inRange_mult [OF assms(3,4)]
  from assms(5) have "real_of_int (fst z * 1000000000) \<le> real_of_int (mulLo p q + mulLo r s)"
    and "real_of_int (mulHi p q + mulHi r s) \<le> real_of_int (snd z * 1000000000)"
    unfolding entryOK_def by (simp_all only: of_int_le_iff)
  then have lo: "real_of_int (fst z) * ?Q \<le> real_of_int (mulLo p q) + real_of_int (mulLo r s)"
    and hi: "real_of_int (mulHi p q) + real_of_int (mulHi r s) \<le> real_of_int (snd z) * ?Q"
    by simp_all
  have e: "(a * b + c * d) * ?Q * ?Q = (a * ?Q) * (b * ?Q) + (c * ?Q) * (d * ?Q)"
    by (simp add: algebra_simps)
  have "real_of_int (fst z) * ?Q \<le> (a * b + c * d) * ?Q * ?Q"
    unfolding e using lo pq(1) rs(1) by linarith
  then have 1: "real_of_int (fst z) \<le> (a * b + c * d) * ?Q"
    by simp
  have "(a * b + c * d) * ?Q * ?Q \<le> real_of_int (snd z) * ?Q"
    unfolding e using hi pq(2) rs(2) by linarith
  then have 2: "(a * b + c * d) * ?Q \<le> real_of_int (snd z)"
    by simp
  show ?thesis
    unfolding inRange_def using 1 2 by simp
qed

lemma encloses_add:
  assumes "encloses m X" and "encloses n Y" and "mulOK X Y Z"
  shows "encloses (m + n) Z"
proof -
  obtain x11 x12 x21 x22 where X: "X = (x11, x12, x21, x22)" by (cases X) auto
  obtain y11 y12 y21 y22 where Y: "Y = (y11, y12, y21, y22)" by (cases Y) auto
  obtain z11 z12 z21 z22 where Z: "Z = (z11, z12, z21, z22)" by (cases Z) auto
  from assms(1) have x: "inRange x11 (m11 m)" "inRange x12 (m12 m)" "inRange x21 (m21 m)" "inRange x22 (m22 m)"
    by (simp_all add: encloses_def X)
  from assms(2) have y: "inRange y11 (m11 n)" "inRange y12 (m12 n)" "inRange y21 (m21 n)" "inRange y22 (m22 n)"
    by (simp_all add: encloses_def Y)
  from assms(3) have ok: "entryOK x11 y11 x12 y21 z11" "entryOK x11 y12 x12 y22 z12"
    "entryOK x21 y11 x22 y21 z21" "entryOK x21 y12 x22 y22 z22"
    by (simp_all add: X Y Z)
  show ?thesis
    unfolding encloses_def Z osc_power_add
    using entryOK_sound [OF x(1) y(1) x(2) y(3) ok(1)] entryOK_sound [OF x(1) y(2) x(2) y(4) ok(2)]
      entryOK_sound [OF x(3) y(1) x(4) y(3) ok(3)] entryOK_sound [OF x(3) y(2) x(4) y(4) ok(4)]
    by simp
qed

lemma osc_power_1:
  "encloses 1 ((999000000, 999000000), (431568000, 431568000), (- 2158134, - 2158133), (998203686, 998203687))"
  by (simp add: encloses_def inRange_def m11_def m12_def m21_def m22_def osc_eq)

lemma osc_power_2:
  "encloses 2 ((997069618, 997069619), (861929200, 861929201), (- 4310234, - 4310231), (995479217, 995479220))"
proof -
  have "encloses (1 + 1) ((997069618, 997069619), (861929200, 861929201), (- 4310234, - 4310231), (995479217, 995479220))"
    by (rule encloses_add [OF osc_power_1 osc_power_1]) (simp add: entryOK_def mulLo_def mulHi_def)
  then show ?thesis by (simp only: one_add_one)
qed

lemma osc_power_4:
  "encloses 4 ((990432706, 990432712), (1717436023, 1717436029), (- 8588352, - 8588345), (987263754, 987263764))"
proof -
  have "encloses (2 + 2) ((990432706, 990432712), (1717436023, 1717436029), (- 8588352, - 8588345), (987263754, 987263764))"
    by (rule encloses_add [OF osc_power_2 osc_power_2]) (simp add: entryOK_def mulLo_def mulHi_def)
  then show ?thesis by simp
qed

lemma osc_power_8:
  "encloses 8 ((966206999, 966207024), (3396567142, 3396567183), (- 16985154, - 16985139), (959939774, 959939807))"
proof -
  have "encloses (4 + 4) ((966206999, 966207024), (3396567142, 3396567183), (- 16985154, - 16985139), (959939774, 959939807))"
    by (rule encloses_add [OF osc_power_4 osc_power_4]) (simp add: entryOK_def mulLo_def mulHi_def)
  then show ?thesis by simp
qed

lemma osc_power_16:
  "encloses 16 ((875864748, 875864849), (6542286839, 6542287116), (- 32715901, - 32715870), (863793153, 863793269))"
proof -
  have "encloses (8 + 8) ((875864748, 875864849), (6542286839, 6542287116), (- 32715901, - 32715870), (863793153, 863793269))"
    by (rule encloses_add [OF osc_power_8 osc_power_8]) (simp add: entryOK_def mulLo_def mulHi_def)
  then show ?thesis by simp
qed

lemma osc_power_32:
  "encloses 32 ((553102239, 553102628), (11381340990, 11381342892), (- 56914483, - 56914421), (532101793, 532102206))"
proof -
  have "encloses (16 + 16) ((553102239, 553102628), (11381340990, 11381342892), (- 56914483, - 56914421), (532101793, 532102206))"
    by (rule encloses_add [OF osc_power_16 osc_power_16]) (simp add: entryOK_def mulLo_def mulHi_def)
  then show ?thesis by simp
qed

lemma osc_power_64:
  "encloses 64 ((- 341841160, - 341839915), (12351077131, 12351088324), (- 61763873, - 61763759), (- 364630929, - 364629675))"
proof -
  have "encloses (32 + 32) ((- 341841160, - 341839915), (12351077131, 12351088324), (- 61763873, - 61763759), (- 364630929, - 364629675))"
    by (rule encloses_add [OF osc_power_32 osc_power_32]) (simp add: entryOK_def mulLo_def mulHi_def)
  then show ?thesis by simp
qed

lemma osc_power_128:
  "encloses 128 ((- 645996524, - 645993572), (- 8725699170, - 8725660396), (43634217, 43634453), (- 629896251, - 629893236))"
proof -
  have "encloses (64 + 64) ((- 645996524, - 645993572), (- 8725699170, - 8725660396), (43634217, 43634453), (- 629896251, - 629893236))"
    by (rule encloses_add [OF osc_power_64 osc_power_64]) (simp add: entryOK_def mulLo_def mulHi_def)
  then show ?thesis by simp
qed

lemma osc_power_256:
  "encloses 256 ((36566584, 36574150), (11132954990, 11133056528), (- 55672884, - 55672321), (16024378, 16031928))"
proof -
  have "encloses (128 + 128) ((36566584, 36574150), (11132954990, 11133056528), (- 55672884, - 55672321), (16024378, 16031928))"
    by (rule encloses_add [OF osc_power_128 osc_power_128]) (simp add: entryOK_def mulLo_def mulHi_def)
  then show ?thesis by simp
qed

lemma osc_power_384:
  "encloses 384 ((462151000, 462163054), (- 7331805600, - 7331640638), (36663172, 36664034), (475679315, 475691191))"
proof -
  have "encloses (256 + 128) ((462151000, 462163054), (- 7331805600, - 7331640638), (36663172, 36664034), (475679315, 475691191))"
    by (rule encloses_add [OF osc_power_256 osc_power_128]) (simp add: entryOK_def mulLo_def mulHi_def)
  then show ?thesis by simp
qed

lemma osc_power_448:
  "encloses 448 ((294843330, 294859052), (8381396390, 8381619788), (- 41913807, - 41912678), (279377944, 279393929))"
proof -
  have "encloses (384 + 64) ((294843330, 294859052), (8381396390, 8381619788), (- 41913807, - 41912678), (279377944, 279393929))"
    by (rule encloses_add [OF osc_power_384 osc_power_64]) (simp add: entryOK_def mulLo_def mulHi_def)
  then show ?thesis by simp
qed

lemma osc_power_480:
  "encloses 480 ((- 313957051, - 313935006), (7815468524, 7815770355), (- 39084198, - 39082629), (- 328377905, - 328356354))"
proof -
  have "encloses (448 + 32) ((- 313957051, - 313935006), (7815468524, 7815770355), (- 39084198, - 39082629), (- 328377905, - 328356354))"
    by (rule encloses_add [OF osc_power_448 osc_power_32]) (simp add: entryOK_def mulLo_def mulHi_def)
  then show ?thesis by simp
qed

lemma osc_power_496:
  "encloses 496 ((- 530683915, - 530654457), (4696951028, 4697356967), (- 23490012, - 23487917), (- 539350670, - 539321739))"
proof -
  have "encloses (480 + 16) ((- 530683915, - 530654457), (4696951028, 4697356967), (- 23490012, - 23487917), (- 539350670, - 539321739))"
    by (rule encloses_add [OF osc_power_480 osc_power_16]) (simp add: entryOK_def mulLo_def mulHi_def)
  then show ?thesis by simp
qed

lemma osc_power_498:
  "encloses 498 ((- 549375517, - 549344380), (4218305168, 4218734678), (- 21096577, - 21094360), (- 557159112, - 557128503))"
proof -
  have "encloses (496 + 2) ((- 549375517, - 549344380), (4218305168, 4218734678), (- 21096577, - 21094360), (- 557159112, - 557128503))"
    by (rule encloses_add [OF osc_power_496 osc_power_2]) (simp add: entryOK_def mulLo_def mulHi_def)
  then show ?thesis by simp
qed

subsection \<open>The scenario\<close>

lemma osc_498: "fst ((osc ^^ 498) (423317 / 80, 0)) < - 2550"
proof -
  from osc_power_498 have "m11 498 * 1000000000 \<le> real_of_int (- 549344380)"
    by (simp add: encloses_def inRange_def)
  then have "m11 498 * (423317 / 80) < - 2550"
    by simp
  then show ?thesis
    by (simp add: osc_power_linear)
qed

lemma run_frames_add: "run s (frames (m + n)) = run (run s (frames m)) (frames n)"
  by (simp add: run_def frames_def replicate_add)

lemma unsettled_after_500:
  assumes "quiet100 s" and "frame s = 0"
  shows "1 < maxAbsHeight (rtA (run s (frames 500)))"
proof -
  let ?s2 = "run s (frames 2)"
  have q: "quiet100 ?s2" by (rule frames_quiet100 [OF assms(1)])
  have fr: "2 \<le> frame ?s2" by (simp add: frames_frame assms(2))
  have "run s (frames 500) = run ?s2 (frames 498)"
    using run_frames_add [of s 2 498] by simp
  then have "(weightedHeight (rtA (run s (frames 500))), weightedVelocity (rtA (run s (frames 500))))
      = (osc ^^ 498) (423317 / 80, 0)"
    by (simp only: weighted_frames [OF q fr] weighted_after_two [OF assms])
  then have "weightedHeight (rtA (run s (frames 500))) = fst ((osc ^^ 498) (423317 / 80, 0))"
    by (simp add: prod_eq_iff)
  with osc_498 have w: "weightedHeight (rtA (run s (frames 500))) < - 2550"
    by simp
  have q5: "quiet100 (run s (frames 500))" by (rule frames_quiet100 [OF assms(1)])
  have "\<bar>weightedHeight (rtA (run s (frames 500)))\<bar> \<le> 2550 * maxAbsHeight (rtA (run s (frames 500)))"
    using q5 by (intro weightedHeight_le_max) (simp_all add: quiet100_def)
  with w show ?thesis
    by linarith
qed

text \<open>
  Claim C4, as amended. Starting from a 100 by 100 field with frame index 0 and the
  pointer off-field: after 1 step every texel is (0, 0, 0, 0); after step 2 the centre
  texel (50, 50) has a height above 0 and the corner texel (0, 0) has height 0; and after
  500 steps with no pointer input the field has not settled, the largest absolute height
  over the field still being above 1.
\<close>

theorem hundred_field_scenario:
  assumes "frame s = 0"
    and "fwidth (rtA s) = 100" and "fheight (rtA s) = 100"
    and "fwidth (rtB s) = 100" and "fheight (rtB s) = 100"
    and "u_resolution (simUniforms s) = (100, 100)"
    and "fst (u_mouse (simUniforms s)) \<le> 0"
  shows "texels (rtA (run s (frames 1))) i j = Vec4 0 0 0 0
     \<and> 0 < x4 (texels (rtA (run s (frames 2))) 50 50)
     \<and> x4 (texels (rtA (run s (frames 2))) 0 0) = 0
     \<and> 1 < maxAbsHeight (rtA (run s (frames 500)))"
proof -
  have q: "quiet100 s"
    using assms by (simp add: quiet100_def)
  have a: "texels (rtA (run s (frames 1))) i j = Vec4 0 0 0 0"
    by (rule first_frame_clears [OF assms(1)])
  have b: "0 < x4 (texels (rtA (run s (frames 2))) 50 50)"
    unfolding second_frame_impulse(1) [OF q assms(1)]
    by (simp add: spec_impulse_def power2_eq_square)
  have c: "x4 (texels (rtA (run s (frames 2))) 0 0) = 0"
    unfolding second_frame_impulse(1) [OF q assms(1)]
    by (simp add: spec_impulse_def power2_eq_square)
  from a b c unsettled_after_500 [OF q assms(1)] show ?thesis
    by simp
qed

lemma phone_quiet100: "quiet100 (initSession phoneWindow)"
  by (simp add: quiet100_def phone_size)

theorem hundred_field_scenario_witness:
  "texels (rtA (run (initSession phoneWindow) (frames 1))) 3 7 = Vec4 0 0 0 0
   \<and> 0 < x4 (texels (rtA (run (initSession phoneWindow) (frames 2))) 50 50)
   \<and> x4 (texels (rtA (run (initSession phoneWindow) (frames 2))) 0 0) = 0
   \<and> 1 < maxAbsHeight (rtA (run (initSession phoneWindow) (frames 500)))"
  using hundred_field_scenario [of "initSession phoneWindow" 3 7]
  by (simp add: phone_size)

text \<open>
  The claim as it was stated fails in its last part: on the phone session, a 100 by 100
  field started at frame 0 with the pointer off-field, the largest absolute height after
  500 steps is not below 0.001.
\<close>

theorem hundred_field_scenario_counterexample:
  "\<not> maxAbsHeight (rtA (run (initSession phoneWindow) (frames 500))) < 1 / 1000"
  using unsettled_after_500 [OF phone_quiet100] by (simp add: phone_size)

end
